theory Spec2Isabelle
  imports Complex_Main "HOL-Library.Word" "HOL-Library.Signed_Division" "HOL-Library.Sublist"
begin

section \<open>SET and RESET of session variables (pkg/sql/set_var.go)\<close>

text \<open>
  A shallow embedding of \<^verbatim>\<open>pkg/sql/set_var.go\<close>: the statement compiler \<^verbatim>\<open>SetVar\<close>,
  the executor \<^verbatim>\<open>startExec\<close> with its scoping rule \<^verbatim>\<open>applyOnSessionDataMutators\<close>,
  the time-zone and timeout converters and the timeout setters.

  Go's \<^verbatim>\<open>int64\<close> and \<^verbatim>\<open>time.Duration\<close> are 64-bit words (arithmetic wraps, \<open>sint\<close> reads the
  signed value). A function that returns \<^verbatim>\<open>(T, error)\<close> returns \<open>error + T\<close>; a function that
  returns only \<^verbatim>\<open>error\<close> and mutates its receiver returns \<open>error option\<close> together with the
  new state. A call through a nil function value is the error \<open>GoPanic\<close>.
\<close>

subsection \<open>Errors and notices\<close>

type_synonym int64 = "64 word"

datatype pgcode = Syntax | InvalidParameterValue | CantChangeRuntimeParam | UndefinedObject
  | OtherCode string

text \<open>
  \<^verbatim>\<open>pgerror.Newf(code, format, args...)\<close> keeps its format string and its arguments apart, so
  that "the error names the parameter" is "the parameter is an argument of the message".
  \<^verbatim>\<open>errors.WithDetailf\<close> and \<^verbatim>\<open>errors.WithHintf\<close> fill the detail and the hint of the
  error they wrap. \<open>GoError\<close> is an error of another package (its text), \<open>GoPanic\<close> a
  run-time panic.
\<close>

datatype error =
    PgError (code: pgcode) (msg_format: string) (msg_args: "farg list")
            (detail: "(string \<times> farg list) option") (hint: "(string \<times> farg list) option")
  | GoError string
  | GoPanic string
and farg = ArgS string | ArgE error

definition Newf :: "pgcode \<Rightarrow> string \<Rightarrow> farg list \<Rightarrow> error" where
  "Newf c f as = PgError c f as None None"

definition newSingleArgVarError :: "string \<Rightarrow> error" where
  "newSingleArgVarError varName =
     Newf InvalidParameterValue ''SET %s takes only one argument'' [ArgS varName]"

definition wrapSetVarError :: "string \<Rightarrow> string \<Rightarrow> string \<Rightarrow> farg list \<Rightarrow> error" where
  "wrapSetVarError varName actualValue fmt args =
     PgError InvalidParameterValue ''invalid value for parameter %q: %q''
       [ArgS varName, ArgS actualValue] (Some (fmt, args)) None"

fun strings_Join :: "string list \<Rightarrow> string \<Rightarrow> string" where
  "strings_Join [] sep = []"
| "strings_Join [x] sep = x"
| "strings_Join (x # y # ys) sep = x @ sep @ strings_Join (y # ys) sep"

definition newVarValueError :: "string \<Rightarrow> string \<Rightarrow> string list \<Rightarrow> error" where
  "newVarValueError varName actualVal allowedVals =
     PgError InvalidParameterValue ''invalid value for parameter %q: %q''
       [ArgS varName, ArgS actualVal] None
       (if length allowedVals > 0
        then Some (''Available values: %s'', [ArgS (strings_Join allowedVals '','')])
        else None)"

definition newCannotChangeParameterError :: "string \<Rightarrow> error" where
  "newCannotChangeParameterError varName =
     Newf CantChangeRuntimeParam ''parameter %q cannot be changed'' [ArgS varName]"

text \<open>A client notice: \<^verbatim>\<open>pgnotice.NewWithSeverityf(severity, format, args...)\<close>.\<close>

record notice =
  severity :: string
  notice_format :: string
  notice_args :: "string list"

definition NewWithSeverityf :: "string \<Rightarrow> string \<Rightarrow> string list \<Rightarrow> notice" where
  "NewWithSeverityf sev f as = \<lparr>severity = sev, notice_format = f, notice_args = as\<rparr>"

subsection \<open>Session data, mutators and the execution state\<close>

text \<open>
  \<^verbatim>\<open>duration.Duration\<close> is the interval value of a \<^verbatim>\<open>DInterval\<close>: months, days and
  nanoseconds, each an \<^verbatim>\<open>int64\<close>.
\<close>

record Duration =
  Months :: int64
  Days :: int64
  nanos :: int64

datatype IntervalStyle = IntervalStyle_POSTGRES | IntervalStyle_ISO_8601
  | IntervalStyle_SQL_STANDARD

text \<open>
  A \<^verbatim>\<open>*time.Location\<close>. \<open>FixedOffsetZone offset origRepr\<close> is the pseudo-zone that
  \<^verbatim>\<open>timeutil.FixedOffsetTimeZoneToLocation(offset, origRepr)\<close> builds; \<open>LoadedZone\<close> is a
  zone found by name.
\<close>

datatype location = FixedOffsetZone int string | LoadedZone string

text \<open>
  The fields of the session data that the setters of this file write. A
  \<^verbatim>\<open>sessionDataMutator\<close> \<open>m\<close> is identified with the session data \<^verbatim>\<open>m.data\<close> it mutates.
\<close>

record SessionData =
  IntervalStyleField :: IntervalStyle
  Location :: location
  StmtTimeout :: int64
  LockTimeout :: int64
  IdleInSessionTimeout :: int64
  IdleInTransactionSessionTimeout :: int64

type_synonym sessionDataMutator = SessionData

text \<open>
  The part of the planner that \<^verbatim>\<open>startExec\<close> reads and writes: the stack of session data
  behind \<^verbatim>\<open>sessionDataMutatorIterator\<close> (listed in traversal order, the topmost element
  last), the session defaults, the cluster settings, the flag \<^verbatim>\<open>EvalContext().TxnImplicit\<close>,
  the buffered client notices and the telemetry counters incremented so far.
\<close>

record 's planner =
  mutators :: "sessionDataMutator list"
  defaults :: "string \<rightharpoonup> string"
  settings :: 's
  TxnImplicit :: bool
  notices :: "notice list"
  counters :: "string list"

definition BufferClientNotice :: "notice \<Rightarrow> 's planner \<Rightarrow> 's planner" where
  "BufferClientNotice nt p = p\<lparr>notices := notices p @ [nt]\<rparr>"

text \<open>
  Modelled from the spec: \<^verbatim>\<open>sessionDataMutatorIterator.applyOnEachMutatorError\<close> is not in
  this file. The spec gives it as "apply to all, collecting the first error"
  (\<open>applyToAll(fn) -> error\<close>, "first error wins, short-circuits"): the mutators are visited
  in order, and the first error ends the traversal. A setter that fails may have written to
  its own mutator before failing, so the function returns the mutator it was given as the
  setter left it.
\<close>

fun applyOnEachMutatorError ::
  "(sessionDataMutator \<Rightarrow> error option \<times> sessionDataMutator) \<Rightarrow> sessionDataMutator list
     \<Rightarrow> error option \<times> sessionDataMutator list" where
  "applyOnEachMutatorError applyFunc [] = (None, [])"
| "applyOnEachMutatorError applyFunc (m # ms) =
     (case applyFunc m of
        (Some err, m') \<Rightarrow> (Some err, m' # ms)
      | (None, m') \<Rightarrow>
          (case applyOnEachMutatorError applyFunc ms of (r, ms') \<Rightarrow> (r, m' # ms')))"

text \<open>
  Modelled from the spec: \<^verbatim>\<open>sessionDataMutatorIterator.applyOnTopMutator\<close> is not in this
  file. The spec gives it as "apply to topmost" (\<open>applyToTop(fn) -> error\<close>): the function is
  applied to the topmost mutator only. A session always has a topmost element; on an empty
  stack the Go code would dereference nil, which is the panic below.
\<close>

definition applyOnTopMutator ::
  "(sessionDataMutator \<Rightarrow> error option \<times> sessionDataMutator) \<Rightarrow> sessionDataMutator list
     \<Rightarrow> error option \<times> sessionDataMutator list" where
  "applyOnTopMutator applyFunc ms =
     (if ms = [] then (Some (GoPanic ''nil session data''), [])
      else case applyFunc (last ms) of (r, m') \<Rightarrow> (r, butlast ms @ [m']))"

definition applyOnSessionDataMutators ::
  "bool \<Rightarrow> (sessionDataMutator \<Rightarrow> error option \<times> sessionDataMutator) \<Rightarrow> 's planner
     \<Rightarrow> error option \<times> 's planner" where
  "applyOnSessionDataMutators is_local applyFunc p =
     (if is_local then
        (if TxnImplicit p then
           (None, BufferClientNotice
                    (NewWithSeverityf ''WARNING''
                       ''SET LOCAL can only be used in transaction blocks'' []) p)
         else
           (case applyOnTopMutator applyFunc (mutators p) of
              (r, ms') \<Rightarrow> (r, p\<lparr>mutators := ms'\<rparr>)))
      else
        (case applyOnEachMutatorError applyFunc (mutators p) of
           (r, ms') \<Rightarrow> (r, p\<lparr>mutators := ms'\<rparr>)))"

subsection \<open>Values, expressions and the services of the surrounding engine\<close>

text \<open>
  An \<^verbatim>\<open>apd.Decimal\<close>: its form, and for a finite decimal the sign, the coefficient and the
  exponent. \<open>Finite neg c e\<close> is the number \<open>\<plusminus> c * 10 ^ e\<close>.
\<close>

datatype decimal = Finite bool nat int | Infinite bool | NaN

text \<open>
  An evaluated value (\<^verbatim>\<open>tree.Datum\<close>) as the type switches of this file see it, that is
  after \<^verbatim>\<open>tree.UnwrapDatum\<close>. A \<^verbatim>\<open>DFloat\<close> carries the 64 bits of its \<^verbatim>\<open>float64\<close>; \<open>DOther\<close>
  stands for every datum of another type (its text).
\<close>

datatype datum = DString string | DInterval Duration | DInt int64 | DFloat "64 word"
  | DDecimal decimal | DBool bool | DOther string

text \<open>
  A \<^verbatim>\<open>tree.TypedExpr\<close> is a datum, which evaluates to itself, or a deferred expression (its
  text), which the evaluation context evaluates. \<open>expr\<close> is the untyped \<^verbatim>\<open>tree.Expr\<close> of the
  parsed statement.
\<close>

datatype typed_expr = Datum datum | Deferred string

datatype expr = DefaultVal | Expr string

text \<open>
  What this file calls and does not define, as the fields of one record: evaluation and
  rendering of expressions, \<^verbatim>\<open>paramparse.DatumAsString\<close>, \<^verbatim>\<open>paramparse.UnresolvedNameToStrVal\<close>,
  the planner's \<^verbatim>\<open>analyzeExpr\<close>, \<^verbatim>\<open>strings.ToLower\<close>, the time-zone lookup
  \<^verbatim>\<open>timeutil.TimeZoneStringToLocation\<close> (with the ISO 8601 standard), \<^verbatim>\<open>Location.String\<close>,
  \<^verbatim>\<open>float64\<close> multiplication and conversion to \<^verbatim>\<open>int64\<close>, \<^verbatim>\<open>Decimal.String\<close>,
  \<^verbatim>\<open>duration.Duration.Encode\<close> (its first result, the nanoseconds),
  \<^verbatim>\<open>tree.ParseDIntervalWithTypeMetadata\<close> with the millisecond duration field, and the table
  \<^verbatim>\<open>DummyVars\<close> (its keys).
\<close>

record env =
  evalDeferred :: "string \<Rightarrow> error + datum"
  exprString :: "typed_expr \<Rightarrow> string"
  rawExprString :: "expr \<Rightarrow> string"
  DatumAsString :: "string \<Rightarrow> typed_expr \<Rightarrow> error + string"
  UnresolvedNameToStrVal :: "expr \<Rightarrow> expr"
  analyzeExpr :: "expr \<Rightarrow> string \<Rightarrow> error + typed_expr"
  strings_ToLower :: "string \<Rightarrow> string"
  TimeZoneStringToLocation :: "string \<Rightarrow> error + location"
  locationString :: "location \<Rightarrow> string"
  float64_mul :: "64 word \<Rightarrow> 64 word \<Rightarrow> 64 word"
  float64_to_int64 :: "64 word \<Rightarrow> int64"
  decimalString :: "decimal \<Rightarrow> string"
  Encode :: "Duration \<Rightarrow> error + int64"
  ParseDIntervalWithTypeMetadata :: "IntervalStyle \<Rightarrow> string \<Rightarrow> error + Duration"
  DummyVars :: "string set"

definition Eval :: "env \<Rightarrow> typed_expr \<Rightarrow> error + datum" where
  "Eval e x = (case x of Datum d \<Rightarrow> Inr d | Deferred t \<Rightarrow> evalDeferred e t)"

subsection \<open>Decimal arithmetic of the time-zone converter\<close>

text \<open>
  \<^verbatim>\<open>apd.New(coeff, exponent)\<close> is the finite decimal \<open>coeff * 10 ^ exponent\<close>.
\<close>

definition apd_New :: "int \<Rightarrow> int \<Rightarrow> decimal" where
  "apd_New coeff exponent = Finite (coeff < 0) (nat \<bar>coeff\<bar>) exponent"

text \<open>
  Modelled from the spec: \<^verbatim>\<open>apd.Context.Mul\<close> under \<^verbatim>\<open>tree.ExactCtx\<close> is not in this file.
  The spec gives it as "exact (non-lossy) decimal multiplication": the product of two
  finite decimals has the product of the coefficients and the sum of the exponents. A NaN
  operand gives NaN, and so does zero times infinity; none of them is an error of the
  multiplication (the context does not trap invalid operations).
\<close>

fun exact_Mul :: "decimal \<Rightarrow> decimal \<Rightarrow> decimal" where
  "exact_Mul (Finite n1 c1 e1) (Finite n2 c2 e2) = Finite (n1 \<noteq> n2) (c1 * c2) (e1 + e2)"
| "exact_Mul NaN y = NaN"
| "exact_Mul x NaN = NaN"
| "exact_Mul (Infinite n1) (Infinite n2) = Infinite (n1 \<noteq> n2)"
| "exact_Mul (Infinite n1) (Finite n2 c2 e2) = (if c2 = 0 then NaN else Infinite (n1 \<noteq> n2))"
| "exact_Mul (Finite n1 c1 e1) (Infinite n2) = (if c1 = 0 then NaN else Infinite (n1 \<noteq> n2))"

text \<open>
  Modelled from the spec: \<^verbatim>\<open>apd.Decimal.Int64\<close> is not in this file. The spec names its
  failures: "an arithmetic error (e.g. overflow or inexact truncation)". The conversion
  fails on a decimal that is not finite, that has a fractional part, or whose value lies
  outside the \<^verbatim>\<open>int64\<close> range, and returns the value otherwise.
\<close>

definition decimal_Int64 :: "decimal \<Rightarrow> error + int64" where
  "decimal_Int64 d =
     (case d of
        Finite neg c e \<Rightarrow>
          (if e < 0 \<and> c mod 10 ^ nat (- e) \<noteq> 0 then Inl (GoError ''has fractional part'')
           else
             (let integ = (if e < 0 then int c div 10 ^ nat (- e) else int c * 10 ^ nat e)
              in if integ > (if neg then 2 ^ 63 else 2 ^ 63 - 1)
                 then Inl (GoError (if neg then ''less than min int64''
                                    else ''greater than max int64''))
                 else Inr (word_of_int (if neg then - integ else integ))))
      | _ \<Rightarrow> Inl (GoError ''is not finite''))"

text \<open>
  Modelled from the spec: \<^verbatim>\<open>apd.ErrDecimal\<close> is not in this file. The spec gives it as "an
  error-accumulating decimal context": it keeps the first error of a sequence of
  operations, and once it holds an error, \<^verbatim>\<open>Mul\<close> leaves its destination as it is and
  \<^verbatim>\<open>Int64\<close> returns 0. The first component is the field \<^verbatim>\<open>err\<close> of the \<^verbatim>\<open>ErrDecimal\<close>.
\<close>

definition ErrDecimal_Mul ::
  "error option \<Rightarrow> decimal \<Rightarrow> decimal \<Rightarrow> decimal \<Rightarrow> error option \<times> decimal" where
  "ErrDecimal_Mul ed d x y = (case ed of Some err \<Rightarrow> (ed, d) | None \<Rightarrow> (None, exact_Mul x y))"

definition ErrDecimal_Int64 :: "error option \<Rightarrow> decimal \<Rightarrow> error option \<times> int64" where
  "ErrDecimal_Int64 ed d =
     (case ed of
        Some err \<Rightarrow> (ed, 0)
      | None \<Rightarrow> (case decimal_Int64 d of Inl err \<Rightarrow> (Some err, 0) | Inr r \<Rightarrow> (None, r)))"

subsection \<open>\<^verbatim>\<open>time.Duration.String\<close>\<close>

text \<open>
  The rendering of a \<^verbatim>\<open>time.Duration\<close> by Go's standard library: \<^verbatim>\<open>fmtFrac\<close> writes the
  fraction of \<open>v / 10 ^ prec\<close> without trailing zeros in front of the buffer, \<^verbatim>\<open>fmtInt\<close>
  the decimal digits of \<open>v\<close>.
\<close>

definition digit_char :: "nat \<Rightarrow> char" where
  "digit_char d = ''0123456789'' ! (d mod 10)"

fun fmtFrac_loop :: "nat \<Rightarrow> bool \<Rightarrow> string \<Rightarrow> nat \<Rightarrow> bool \<times> string \<times> nat" where
  "fmtFrac_loop 0 pr buf v = (pr, buf, v)"
| "fmtFrac_loop (Suc i) pr buf v =
     (let digit = v mod 10; pr' = (pr \<or> digit \<noteq> 0)
      in fmtFrac_loop i pr' (if pr' then digit_char digit # buf else buf) (v div 10))"

definition fmtFrac :: "string \<Rightarrow> nat \<Rightarrow> nat \<Rightarrow> string \<times> nat" where
  "fmtFrac buf v prec =
     (case fmtFrac_loop prec False buf v of
        (pr, buf', v') \<Rightarrow> (if pr then CHR ''.'' # buf' else buf', v'))"

function fmtInt_loop :: "string \<Rightarrow> nat \<Rightarrow> string" where
  "fmtInt_loop buf v = (if v > 0 then fmtInt_loop (digit_char (v mod 10) # buf) (v div 10) else buf)"
  by pat_completeness auto
termination
  by (relation "measure (\<lambda>(buf, v). v)") auto

declare fmtInt_loop.simps [simp del]

definition fmtInt :: "string \<Rightarrow> nat \<Rightarrow> string" where
  "fmtInt buf v = (if v = 0 then CHR ''0'' # buf else fmtInt_loop buf v)"

definition Duration_String :: "int64 \<Rightarrow> string" where
  "Duration_String d =
     (let neg = (d <s 0);
          u = unat (if neg then - d else d);
          body =
            (if u < 1000000000 then
               (if u = 0 then ''0s''
                else
                  (let (prec, buf) =
                         (if u < 1000 then (0, ''ns'')
                          else if u < 1000000 then (3, [CHR 0xC2, CHR 0xB5, CHR ''s''])
                          else (6, ''ms''))
                   in case fmtFrac buf u prec of (buf', u') \<Rightarrow> fmtInt buf' u'))
             else
               (case fmtFrac ''s'' u 9 of
                  (buf1, secs) \<Rightarrow>
                    (let buf2 = fmtInt buf1 (secs mod 60); mins = secs div 60
                     in if mins > 0 then
                          (let buf3 = fmtInt (CHR ''m'' # buf2) (mins mod 60); hours = mins div 60
                           in if hours > 0 then fmtInt (CHR ''h'' # buf3) hours else buf3)
                        else buf2)))
      in if neg then CHR ''-'' # body else body)"

subsection \<open>The converters\<close>

definition getStringVal :: "env \<Rightarrow> string \<Rightarrow> typed_expr list \<Rightarrow> error + string" where
  "getStringVal e varName values =
     (case values of
        [x] \<Rightarrow> DatumAsString e varName x
      | _ \<Rightarrow> Inl (newSingleArgVarError varName))"

text \<open>
  Modelled from the spec: \<^verbatim>\<open>timeutil.FixedOffsetTimeZoneToLocation\<close> is not in this file.
  The spec gives it as "synthesize a fixed-offset pseudo-zone from the computed
  integer-seconds offset, labeled with the original value's textual form".
\<close>

definition FixedOffsetTimeZoneToLocation :: "int \<Rightarrow> string \<Rightarrow> location" where
  "FixedOffsetTimeZoneToLocation offset origRepr = FixedOffsetZone offset origRepr"

definition float64_60 :: "64 word" where
  "float64_60 = 0x404E000000000000"

definition time_Second :: int64 where
  "time_Second = 1000000000"

definition time_Millisecond :: int64 where
  "time_Millisecond = 1000000"

definition int64_quo :: "int64 \<Rightarrow> int64 \<Rightarrow> int64" where
  "int64_quo a b = word_of_int (sint a sdiv sint b)"

text \<open>
  \<^verbatim>\<open>timeZoneVarGetStringVal\<close> up to its last statement: the location that the value
  resolves to. \<open>int(offset)\<close> is the signed value of the 64-bit offset.
\<close>

definition timeZoneVarLocation :: "env \<Rightarrow> typed_expr list \<Rightarrow> error + location" where
  "timeZoneVarLocation e values =
     (case values of
        [x] \<Rightarrow>
          (case Eval e x of
             Inl err \<Rightarrow> Inl err
           | Inr d \<Rightarrow>
               (let fixed = (\<lambda>offset :: int64.
                      Inr (FixedOffsetTimeZoneToLocation (sint offset) (exprString e (Datum d))))
                in case d of
                  DString location \<Rightarrow>
                    (case TimeZoneStringToLocation e location of
                       Inl err \<Rightarrow>
                         Inl (wrapSetVarError ''timezone'' (exprString e x)
                                ''cannot find time zone %q: %v'' [ArgS location, ArgE err])
                     | Inr loc \<Rightarrow> Inr loc)
                | DInterval v \<Rightarrow>
                    (case Encode e v of
                       Inl err \<Rightarrow>
                         Inl (wrapSetVarError ''timezone'' (exprString e x) ''%v'' [ArgE err])
                     | Inr offset \<Rightarrow> fixed (int64_quo offset time_Second))
                | DInt v \<Rightarrow> fixed (v * 60 * 60)
                | DFloat v \<Rightarrow>
                    fixed (float64_to_int64 e
                             (float64_mul e (float64_mul e v float64_60) float64_60))
                | DDecimal v \<Rightarrow>
                    (let sixty = apd_New 60 0;
                         (ed1, sixty1) = ErrDecimal_Mul None sixty sixty sixty;
                         (ed2, sixty2) = ErrDecimal_Mul ed1 sixty1 sixty1 v;
                         (ed3, offset) = ErrDecimal_Int64 ed2 sixty2
                     in if ed3 \<noteq> None then
                          Inl (wrapSetVarError ''timezone'' (exprString e x)
                                 ''time zone value %s would overflow an int64''
                                 [ArgS (decimalString e sixty2)])
                        else fixed offset)
                | _ \<Rightarrow> Inl (newVarValueError ''timezone'' (exprString e x) [])))
      | _ \<Rightarrow> Inl (newSingleArgVarError ''timezone''))"

definition timeZoneVarGetStringVal :: "env \<Rightarrow> typed_expr list \<Rightarrow> error + string" where
  "timeZoneVarGetStringVal e values =
     (case timeZoneVarLocation e values of
        Inl err \<Rightarrow> Inl err
      | Inr loc \<Rightarrow> Inr (locationString e loc))"

definition timeZoneVarSet ::
  "env \<Rightarrow> string \<Rightarrow> sessionDataMutator \<Rightarrow> error option \<times> sessionDataMutator" where
  "timeZoneVarSet e s m =
     (case TimeZoneStringToLocation e s of
        Inl err \<Rightarrow> (Some (wrapSetVarError ''TimeZone'' s ''%v'' [ArgE err]), m)
      | Inr loc \<Rightarrow> (None, m\<lparr>Location := loc\<rparr>))"

definition intervalToDuration :: "env \<Rightarrow> Duration \<Rightarrow> error + int64" where
  "intervalToDuration e interval =
     (case Encode e interval of Inl err \<Rightarrow> Inl err | Inr ns \<Rightarrow> Inr ns)"

definition makeTimeoutVarGetter :: "string \<Rightarrow> env \<Rightarrow> typed_expr list \<Rightarrow> error + string" where
  "makeTimeoutVarGetter varName e values =
     (case values of
        [x] \<Rightarrow>
          (case Eval e x of
             Inl err \<Rightarrow> Inl err
           | Inr d \<Rightarrow>
               (case d of
                  DString v \<Rightarrow> Inr v
                | DInterval v \<Rightarrow>
                    (case intervalToDuration e v of
                       Inl err \<Rightarrow> Inl (wrapSetVarError varName (exprString e x) ''%v'' [ArgE err])
                     | Inr timeout \<Rightarrow> Inr (Duration_String timeout))
                | DInt v \<Rightarrow> Inr (Duration_String (v * time_Millisecond))
                | _ \<Rightarrow> Inr (Duration_String 0)))
      | _ \<Rightarrow> Inl (newSingleArgVarError varName))"

subsection \<open>The timeout setters\<close>

text \<open>
  The methods \<^verbatim>\<open>SetStmtTimeout\<close>, \<^verbatim>\<open>SetLockTimeout\<close>, \<^verbatim>\<open>SetIdleInSessionTimeout\<close>,
  \<^verbatim>\<open>SetIdleInTransactionSessionTimeout\<close> and \<^verbatim>\<open>SetLocation\<close> of the mutator are not in this
  file; as the specification has it, each stores its argument into the session field of its
  name. A setter that fails returns before it calls the method.
\<close>

definition validateTimeoutVar :: "env \<Rightarrow> IntervalStyle \<Rightarrow> string \<Rightarrow> string \<Rightarrow> error + int64" where
  "validateTimeoutVar e style timeString varName =
     (case ParseDIntervalWithTypeMetadata e style timeString of
        Inl err \<Rightarrow> Inl (wrapSetVarError varName timeString ''%v'' [ArgE err])
      | Inr interval \<Rightarrow>
          (case intervalToDuration e interval of
             Inl err \<Rightarrow> Inl (wrapSetVarError varName timeString ''%v'' [ArgE err])
           | Inr timeout \<Rightarrow>
               if timeout <s 0
               then Inl (wrapSetVarError varName timeString
                           ''%v cannot have a negative duration'' [ArgS varName])
               else Inr timeout))"

definition stmtTimeoutVarSet ::
  "env \<Rightarrow> string \<Rightarrow> sessionDataMutator \<Rightarrow> error option \<times> sessionDataMutator" where
  "stmtTimeoutVarSet e s m =
     (case validateTimeoutVar e (IntervalStyleField m) s ''statement_timeout'' of
        Inl err \<Rightarrow> (Some err, m)
      | Inr timeout \<Rightarrow> (None, m\<lparr>StmtTimeout := timeout\<rparr>))"

definition lockTimeoutVarSet ::
  "env \<Rightarrow> string \<Rightarrow> sessionDataMutator \<Rightarrow> error option \<times> sessionDataMutator" where
  "lockTimeoutVarSet e s m =
     (case validateTimeoutVar e (IntervalStyleField m) s ''lock_timeout'' of
        Inl err \<Rightarrow> (Some err, m)
      | Inr timeout \<Rightarrow> (None, m\<lparr>LockTimeout := timeout\<rparr>))"

definition idleInSessionTimeoutVarSet ::
  "env \<Rightarrow> string \<Rightarrow> sessionDataMutator \<Rightarrow> error option \<times> sessionDataMutator" where
  "idleInSessionTimeoutVarSet e s m =
     (case validateTimeoutVar e (IntervalStyleField m) s ''idle_in_session_timeout'' of
        Inl err \<Rightarrow> (Some err, m)
      | Inr timeout \<Rightarrow> (None, m\<lparr>IdleInSessionTimeout := timeout\<rparr>))"

definition idleInTransactionSessionTimeoutVarSet ::
  "env \<Rightarrow> string \<Rightarrow> sessionDataMutator \<Rightarrow> error option \<times> sessionDataMutator" where
  "idleInTransactionSessionTimeoutVarSet e s m =
     (case validateTimeoutVar e (IntervalStyleField m) s
             ''idle_in_transaction_session_timeout'' of
        Inl err \<Rightarrow> (Some err, m)
      | Inr timeout \<Rightarrow> (None, m\<lparr>IdleInTransactionSessionTimeout := timeout\<rparr>))"

subsection \<open>The session variable, the statement and its plan\<close>

text \<open>
  A \<^verbatim>\<open>sessionVar\<close>: the optional converter, the three optional setters and the optional global
  default. \<open>None\<close> is a nil function. The runtime setter and the planner setter receive the
  scope flag and the value, and work on the planner.
\<close>

record 's sessionVar =
  GetStringVal :: "(env \<Rightarrow> typed_expr list \<Rightarrow> error + string) option"
  Set :: "(string \<Rightarrow> sessionDataMutator \<Rightarrow> error option \<times> sessionDataMutator) option"
  RuntimeSet :: "(bool \<Rightarrow> string \<Rightarrow> 's planner \<Rightarrow> error option \<times> 's planner) option"
  SetWithPlanner :: "(bool \<Rightarrow> string \<Rightarrow> 's planner \<Rightarrow> error option \<times> 's planner) option"
  GlobalDefault :: "('s \<Rightarrow> string) option"

text \<open>The parsed statement \<^verbatim>\<open>tree.SetVar\<close>.\<close>

record tree_SetVar =
  Name :: string
  Values :: "expr list"
  Local :: bool

text \<open>
  The plan \<^verbatim>\<open>setVarNode\<close>; its field \<^verbatim>\<open>v\<close> is \<open>var\<close> here. \<open>typedValues = None\<close> is the nil
  slice, which means RESET.
\<close>

record 's setVarNode =
  name :: string
  local :: bool
  var :: "'s sessionVar"
  typedValues :: "typed_expr list option"

text \<open>
  Modelled from the spec: \<^verbatim>\<open>getSessionVar\<close> and the registry it reads are not in this file.
  The spec gives the lookup as \<open>lookup(name, allowMissing)\<close>: "Unknown names fail with a
  'no such parameter' error unless allowMissing is requested" (the error kind "Unknown
  parameter" of its taxonomy). The registry is a map from lower-case names to descriptors;
  \<^verbatim>\<open>SetVar\<close> does not allow a missing name.
\<close>

definition getSessionVar :: "(string \<rightharpoonup> 's sessionVar) \<Rightarrow> string \<Rightarrow> error + 's sessionVar" where
  "getSessionVar registry varName =
     (case registry varName of
        None \<Rightarrow> Inl (Newf UndefinedObject ''unrecognized configuration parameter %q''
                       [ArgS varName])
      | Some v \<Rightarrow> Inr v)"

text \<open>The loop of \<^verbatim>\<open>SetVar\<close> that type-checks the values of an assignment, in order.\<close>

fun analyzeValues :: "env \<Rightarrow> string \<Rightarrow> expr list \<Rightarrow> error + typed_expr list" where
  "analyzeValues e lname [] = Inr []"
| "analyzeValues e lname (x # xs) =
     (let x' = UnresolvedNameToStrVal e x
      in case analyzeExpr e x' (''SET SESSION '' @ lname) of
           Inl err \<Rightarrow> Inl (wrapSetVarError lname (rawExprString e x') ''%v'' [ArgE err])
         | Inr typedValue \<Rightarrow>
             (case analyzeValues e lname xs of
                Inl err \<Rightarrow> Inl err
              | Inr tvs \<Rightarrow> Inr (typedValue # tvs)))"

definition SetVar ::
  "env \<Rightarrow> (string \<rightharpoonup> 's sessionVar) \<Rightarrow> 's planner \<Rightarrow> tree_SetVar \<Rightarrow> error + 's setVarNode" where
  "SetVar e registry p n =
     (if Name n = [] then Inl (Newf Syntax ''invalid variable name: %q'' [ArgS (Name n)])
      else
        (let lname = strings_ToLower e (Name n)
         in case getSessionVar registry lname of
              Inl err \<Rightarrow> Inl err
            | Inr v \<Rightarrow>
                (case (if length (Values n) > 0 then
                         (let isReset = (length (Values n) = 1 \<and> hd (Values n) = DefaultVal)
                          in if \<not> isReset
                             then map_sum id Some (analyzeValues e lname (Values n))
                             else Inr None)
                       else Inr None) of
                   Inl err \<Rightarrow> Inl err
                 | Inr tvs \<Rightarrow>
                     if Set v = None \<and> RuntimeSet v = None \<and> SetWithPlanner v = None
                     then Inl (newCannotChangeParameterError lname)
                     else if tvs = None \<and> defaults p lname = None \<and> GlobalDefault v = None
                     then Inl (newCannotChangeParameterError lname)
                     else Inr \<lparr>name = lname, local = Local n, var = v, typedValues = tvs\<rparr>)))"

definition getSessionVarDefaultString ::
  "string \<Rightarrow> 's sessionVar \<Rightarrow> 's planner \<Rightarrow> bool \<times> string" where
  "getSessionVarDefaultString varName v m =
     (case defaults m varName of
        Some defVal \<Rightarrow> (True, defVal)
      | None \<Rightarrow>
          (case GlobalDefault v of
             Some g \<Rightarrow> (True, g (settings m))
           | None \<Rightarrow> (False, [])))"

text \<open>The loop of \<^verbatim>\<open>startExec\<close> that evaluates the typed values, in order.\<close>

fun evalValues :: "env \<Rightarrow> typed_expr list \<Rightarrow> error + datum list" where
  "evalValues e [] = Inr []"
| "evalValues e (x # xs) =
     (case Eval e x of
        Inl err \<Rightarrow> Inl err
      | Inr d \<Rightarrow> (case evalValues e xs of Inl err \<Rightarrow> Inl err | Inr ds \<Rightarrow> Inr (d # ds)))"

text \<open>
  \<^verbatim>\<open>startExec\<close> in its three parts: the notice for a dummy variable, the value \<^verbatim>\<open>strVal\<close>
  (the evaluated and converted values of an assignment, the default of a RESET), and the
  dispatch to a setter.
\<close>

definition startExec_dummy :: "env \<Rightarrow> 's setVarNode \<Rightarrow> 's planner \<Rightarrow> 's planner" where
  "startExec_dummy e n p =
     (if name n \<in> DummyVars e then
        BufferClientNotice
          (NewWithSeverityf ''WARNING'' ''setting session var %q is a no-op'' [name n])
          (p\<lparr>counters := counters p @ [''DummySessionVarValueCounter '' @ name n]\<rparr>)
      else p)"

definition startExec_strVal :: "env \<Rightarrow> 's setVarNode \<Rightarrow> 's planner \<Rightarrow> error + string" where
  "startExec_strVal e n p =
     (case typedValues n of
        Some tvs \<Rightarrow>
          (case evalValues e tvs of
             Inl err \<Rightarrow> Inl err
           | Inr ds \<Rightarrow>
               (case GetStringVal (var n) of
                  Some conv \<Rightarrow> conv e (map Datum ds)
                | None \<Rightarrow> getStringVal e (name n) (map Datum ds)))
      | None \<Rightarrow> Inr (snd (getSessionVarDefaultString (name n) (var n) p)))"

definition startExec_dispatch ::
  "'s setVarNode \<Rightarrow> string \<Rightarrow> 's planner \<Rightarrow> error option \<times> 's planner" where
  "startExec_dispatch n strVal p =
     (case RuntimeSet (var n) of
        Some runtimeSet \<Rightarrow> runtimeSet (local n) strVal p
      | None \<Rightarrow>
          (case SetWithPlanner (var n) of
             Some setWithPlanner \<Rightarrow> setWithPlanner (local n) strVal p
           | None \<Rightarrow>
               applyOnSessionDataMutators (local n)
                 (\<lambda>m. case Set (var n) of
                         Some setter \<Rightarrow> setter strVal m
                       | None \<Rightarrow> (Some (GoPanic ''nil function''), m))
                 p))"

definition startExec :: "env \<Rightarrow> 's setVarNode \<Rightarrow> 's planner \<Rightarrow> error option \<times> 's planner" where
  "startExec e n p =
     (let p1 = startExec_dummy e n p
      in case startExec_strVal e n p1 of
           Inl err \<Rightarrow> (Some err, p1)
         | Inr strVal \<Rightarrow> startExec_dispatch n strVal p1)"

subsection \<open>Notions of the specification\<close>

text \<open>
  The three setter strategies of a descriptor, and the precedence the specification gives:
  "precedence order is runtimeSetter, then plannerSetter, then setter (first non-nil wins)".
\<close>

datatype strategy = RuntimeSetter | PlannerSetter | GenericSetter

definition selectStrategy :: "'s sessionVar \<Rightarrow> strategy" where
  "selectStrategy v =
     (if RuntimeSet v \<noteq> None then RuntimeSetter
      else if SetWithPlanner v \<noteq> None then PlannerSetter
      else GenericSetter)"

text \<open>
  To invoke one strategy and no other: the runtime setter or the planner setter with the
  scope flag and the value, or the generic setter through the scoping rule.
\<close>

fun invokeStrategy ::
  "strategy \<Rightarrow> 's setVarNode \<Rightarrow> string \<Rightarrow> 's planner \<Rightarrow> error option \<times> 's planner" where
  "invokeStrategy RuntimeSetter n strVal p =
     (case RuntimeSet (var n) of
        Some runtimeSet \<Rightarrow> runtimeSet (local n) strVal p
      | None \<Rightarrow> (Some (GoPanic ''nil function''), p))"
| "invokeStrategy PlannerSetter n strVal p =
     (case SetWithPlanner (var n) of
        Some setWithPlanner \<Rightarrow> setWithPlanner (local n) strVal p
      | None \<Rightarrow> (Some (GoPanic ''nil function''), p))"
| "invokeStrategy GenericSetter n strVal p =
     applyOnSessionDataMutators (local n)
       (\<lambda>m. case Set (var n) of
               Some setter \<Rightarrow> setter strVal m
             | None \<Rightarrow> (Some (GoPanic ''nil function''), m))
       p"

text \<open>
  A request is a RESET when it has no value, or the single value \<^verbatim>\<open>DEFAULT\<close>.
\<close>

definition isResetRequest :: "tree_SetVar \<Rightarrow> bool" where
  "isResetRequest n = (Values n = [] \<or> Values n = [DefaultVal])"

text \<open>The number that a finite decimal denotes.\<close>

definition decimal_value :: "bool \<Rightarrow> nat \<Rightarrow> int \<Rightarrow> real" where
  "decimal_value neg c ex =
     (if neg then - 1 else 1) *
     (if ex < 0 then real c / 10 ^ nat (- ex) else real c * 10 ^ nat ex)"

subsection \<open>A small session for the examples\<close>

text \<open>
  An environment in which \<^verbatim>\<open>5s\<close> and \<^verbatim>\<open>5000ms\<close> parse to five seconds and \<^verbatim>\<open>-1\<close> to minus one
  millisecond (the SQL-standard style accepts none of them), a month is 30 days of 24
  hours, no deferred expression can be evaluated, and \<^verbatim>\<open>enable_seqscan\<close> is a dummy variable.
\<close>

definition example_parse :: "IntervalStyle \<Rightarrow> string \<Rightarrow> error + Duration" where
  "example_parse style s =
     (if style = IntervalStyle_SQL_STANDARD then Inl (GoError ''could not parse interval'')
      else if s = ''5s'' \<or> s = ''5000ms''
      then Inr \<lparr>Months = 0, Days = 0, nanos = 5000000000\<rparr>
      else if s = ''-1'' then Inr \<lparr>Months = 0, Days = 0, nanos = - 1000000\<rparr>
      else Inl (GoError ''could not parse interval''))"

definition example_env :: env where
  "example_env =
     \<lparr>evalDeferred = (\<lambda>t. Inl (GoError ''division by zero'')),
      exprString = (\<lambda>x. case x of Datum (DString v) \<Rightarrow> v | Deferred t \<Rightarrow> t | _ \<Rightarrow> ''datum''),
      rawExprString = (\<lambda>x. case x of Expr t \<Rightarrow> t | DefaultVal \<Rightarrow> ''DEFAULT''),
      DatumAsString = (\<lambda>varName x. case x of Datum (DString v) \<Rightarrow> Inr v
                                     | _ \<Rightarrow> Inl (GoError ''not a string'')),
      UnresolvedNameToStrVal = (\<lambda>x. x),
      analyzeExpr = (\<lambda>x t. case x of Expr v \<Rightarrow> (if v = ''1 + true''
                                                 then Inl (GoError ''unsupported binary operator'')
                                                 else Inr (Deferred v))
                              | DefaultVal \<Rightarrow> Inl (GoError ''DEFAULT is not allowed here'')),
      strings_ToLower = (\<lambda>x. x),
      TimeZoneStringToLocation = (\<lambda>x. Inl (GoError ''unknown time zone'')),
      locationString = (\<lambda>l. case l of FixedOffsetZone offset origRepr \<Rightarrow> origRepr
                                      | LoadedZone zname \<Rightarrow> zname),
      float64_mul = (\<lambda>a b. 0),
      float64_to_int64 = (\<lambda>a. 0),
      decimalString = (\<lambda>d. ''decimal''),
      Encode = (\<lambda>d. Inr (Months d * 2592000000000000 + Days d * 86400000000000 + nanos d)),
      ParseDIntervalWithTypeMetadata = example_parse,
      DummyVars = {''enable_seqscan''}\<rparr>"

definition example_data :: SessionData where
  "example_data =
     \<lparr>IntervalStyleField = IntervalStyle_POSTGRES, Location = LoadedZone ''UTC'',
      StmtTimeout = 0, LockTimeout = 0, IdleInSessionTimeout = 0,
      IdleInTransactionSessionTimeout = 0\<rparr>"

definition example_planner :: "sessionDataMutator list \<Rightarrow> bool \<Rightarrow> unit planner" where
  "example_planner ms implicit =
     \<lparr>mutators = ms, defaults = Map.empty, settings = (), TxnImplicit = implicit,
      notices = [], counters = []\<rparr>"

definition lock_timeout_var :: "unit sessionVar" where
  "lock_timeout_var =
     \<lparr>GetStringVal = Some (makeTimeoutVarGetter ''lock_timeout''),
      Set = Some (lockTimeoutVarSet example_env),
      RuntimeSet = None, SetWithPlanner = None,
      GlobalDefault = Some (\<lambda>sv. ''5s'')\<rparr>"

definition lock_timeout_plan :: "bool \<Rightarrow> typed_expr list option \<Rightarrow> unit setVarNode" where
  "lock_timeout_plan is_local tvs =
     \<lparr>name = ''lock_timeout'', local = is_local, var = lock_timeout_var, typedValues = tvs\<rparr>"

text \<open>A read-only variable, and a variable with all three setters, none of which fails.\<close>

definition server_version_var :: "unit sessionVar" where
  "server_version_var =
     \<lparr>GetStringVal = None, Set = None, RuntimeSet = None, SetWithPlanner = None,
      GlobalDefault = None\<rparr>"

definition three_setters_var :: "unit sessionVar" where
  "three_setters_var =
     \<lparr>GetStringVal = None,
      Set = Some (\<lambda>s m. (None, m\<lparr>Location := LoadedZone s\<rparr>)),
      RuntimeSet = Some (\<lambda>l s p. (None, p\<lparr>counters := counters p @ [''RuntimeSet'']\<rparr>)),
      SetWithPlanner = Some (\<lambda>l s p. (None, p\<lparr>counters := counters p @ [''SetWithPlanner'']\<rparr>)),
      GlobalDefault = None\<rparr>"

definition example_registry :: "string \<rightharpoonup> unit sessionVar" where
  "example_registry =
     [''lock_timeout'' \<mapsto> lock_timeout_var, ''server_version'' \<mapsto> server_version_var]"

text \<open>
  Plans for the variable with three setters, for it without the runtime setter, and for it
  with the generic setter only; and a SET LOCAL of the dummy variable \<^verbatim>\<open>enable_seqscan\<close>, which
  has the generic setter only.
\<close>

definition three_setters_plan :: "typed_expr list option \<Rightarrow> unit setVarNode" where
  "three_setters_plan tvs =
     \<lparr>name = ''x'', local = False, var = three_setters_var, typedValues = tvs\<rparr>"

definition planner_setter_plan :: "typed_expr list option \<Rightarrow> unit setVarNode" where
  "planner_setter_plan tvs =
     \<lparr>name = ''x'', local = False, var = three_setters_var\<lparr>RuntimeSet := None\<rparr>,
      typedValues = tvs\<rparr>"

definition enable_seqscan_plan :: "unit setVarNode" where
  "enable_seqscan_plan =
     \<lparr>name = ''enable_seqscan'', local = True,
      var = three_setters_var\<lparr>RuntimeSet := None, SetWithPlanner := None\<rparr>,
      typedValues = Some [Datum (DString ''on'')]\<rparr>"

definition generic_setter_plan :: "typed_expr list option \<Rightarrow> unit setVarNode" where
  "generic_setter_plan tvs =
     \<lparr>name = ''x'', local = False,
      var = three_setters_var\<lparr>RuntimeSet := None, SetWithPlanner := None\<rparr>,
      typedValues = tvs\<rparr>"

section \<open>Properties\<close>

subsection \<open>Traversals of the mutators\<close>

lemma applyOnEach_all_ok:
  "\<forall>m\<in>set ms. fst (f m) = None \<Longrightarrow>
     applyOnEachMutatorError f ms = (None, map (\<lambda>m. snd (f m)) ms)"
proof (induction ms)
  case Nil
  then show ?case by simp
next
  case (Cons m ms)
  then obtain m' where fm: "f m = (None, m')"
    by (cases "f m") auto
  with Cons show ?case by simp
qed

lemma applyOnEach_first_error:
  assumes "\<forall>x\<in>set pre. fst (f x) = None" and "f m = (Some err, m')"
  shows "applyOnEachMutatorError f (pre @ m # post)
           = (Some err, map (\<lambda>x. snd (f x)) pre @ m' # post)"
  using assms(1)
proof (induction pre)
  case Nil
  then show ?case using assms(2) by simp
next
  case (Cons x pre)
  then obtain x' where fx: "f x = (None, x')"
    by (cases "f x") auto
  with Cons show ?case by simp
qed

lemma startExec_dummy_fields:
  "mutators (startExec_dummy e n p) = mutators p"
  "defaults (startExec_dummy e n p) = defaults p"
  "settings (startExec_dummy e n p) = settings p"
  "TxnImplicit (startExec_dummy e n p) = TxnImplicit p"
  by (simp_all add: startExec_dummy_def BufferClientNotice_def)


subsection \<open>The example session\<close>

lemma lock_setter_ok:
  "IntervalStyleField m \<noteq> IntervalStyle_SQL_STANDARD \<Longrightarrow>
   lockTimeoutVarSet example_env ''5s'' m = (None, m\<lparr>LockTimeout := 5000000000\<rparr>)"
  by (simp add: lockTimeoutVarSet_def validateTimeoutVar_def intervalToDuration_def
        example_env_def example_parse_def word_sless_alt)

lemma lock_setter_fails:
  "IntervalStyleField m = IntervalStyle_SQL_STANDARD \<Longrightarrow>
   lockTimeoutVarSet example_env ''5s'' m =
     (Some (wrapSetVarError ''lock_timeout'' ''5s'' ''%v''
              [ArgE (GoError ''could not parse interval'')]), m)"
  by (simp add: lockTimeoutVarSet_def validateTimeoutVar_def intervalToDuration_def
        example_env_def example_parse_def)

lemma lock_plan_strVal:
  "startExec_strVal example_env (lock_timeout_plan l (Some [Datum (DString ''5s'')])) p = Inr ''5s''"
  by (simp add: startExec_strVal_def lock_timeout_plan_def lock_timeout_var_def
        makeTimeoutVarGetter_def Eval_def)

lemma lock_plan_dummy:
  "startExec_dummy example_env (lock_timeout_plan l tvs) p = p"
  by (simp add: startExec_dummy_def lock_timeout_plan_def example_env_def)


subsection \<open>Scope of the generic setter\<close>

text \<open>
  With no runtime setter and no planner setter, an execution that has resolved its value
  hands the generic setter, closed over that value, to the scoping rule.
\<close>

lemma startExec_generic_path:
  assumes "RuntimeSet (var n) = None" and "SetWithPlanner (var n) = None"
    and "Set (var n) = Some setter"
    and "startExec_strVal e n (startExec_dummy e n p) = Inr strVal"
  shows "startExec e n p
           = applyOnSessionDataMutators (local n) (setter strVal) (startExec_dummy e n p)"
  using assms by (simp add: startExec_def startExec_dispatch_def)

text \<open>
  Claim C1. A SET SESSION that takes the generic setter path (no runtime setter, no planner
  setter, \<open>local\<close> false) and has resolved the value \<open>strVal\<close> applies the setter with that
  one value to the mutators in order. If no setter call fails, every mutator holds the result
  of its call and the statement succeeds. If the call on \<open>m\<close> is the first to fail, its error
  is the error of the statement, the mutators before \<open>m\<close> keep the value applied to them (there
  is no rollback), \<open>m\<close> is left as its setter left it, and the mutators after \<open>m\<close> are not
  touched.
\<close>

theorem set_session_applies_to_every_mutator:
  assumes "RuntimeSet (var n) = None" and "SetWithPlanner (var n) = None"
    and "Set (var n) = Some setter" and "\<not> local n"
    and "startExec_strVal e n (startExec_dummy e n p) = Inr strVal"
  shows "((\<forall>m\<in>set (mutators p). fst (setter strVal m) = None) \<longrightarrow>
            startExec e n p =
              (None, (startExec_dummy e n p)
                       \<lparr>mutators := map (\<lambda>m. snd (setter strVal m)) (mutators p)\<rparr>))
       \<and> (mutators p = pre @ m # post \<and> (\<forall>x\<in>set pre. fst (setter strVal x) = None)
             \<and> setter strVal m = (Some err, m') \<longrightarrow>
            startExec e n p =
              (Some err, (startExec_dummy e n p)
                           \<lparr>mutators := map (\<lambda>x. snd (setter strVal x)) pre @ m' # post\<rparr>))"
  using assms(4)
  by (auto simp: startExec_generic_path [OF assms(1,2,3,5)] applyOnSessionDataMutators_def
        startExec_dummy_fields applyOnEach_all_ok applyOnEach_first_error)

theorem set_session_applies_to_every_mutator_witness:
  "startExec example_env (lock_timeout_plan False (Some [Datum (DString ''5s'')]))
     (example_planner [example_data, example_data] False)
   = (None, example_planner [example_data\<lparr>LockTimeout := 5000000000\<rparr>,
                             example_data\<lparr>LockTimeout := 5000000000\<rparr>] False)
   \<and> startExec example_env (lock_timeout_plan False (Some [Datum (DString ''5s'')]))
     (example_planner
        [example_data, example_data,
         example_data\<lparr>IntervalStyleField := IntervalStyle_SQL_STANDARD\<rparr>,
         example_data, example_data] False)
   = (Some (wrapSetVarError ''lock_timeout'' ''5s'' ''%v''
              [ArgE (GoError ''could not parse interval'')]),
      example_planner
        [example_data\<lparr>LockTimeout := 5000000000\<rparr>,
         example_data\<lparr>LockTimeout := 5000000000\<rparr>,
         example_data\<lparr>IntervalStyleField := IntervalStyle_SQL_STANDARD\<rparr>,
         example_data, example_data] False)"
proof -
  let ?n = "lock_timeout_plan False (Some [Datum (DString ''5s'')])"
  let ?bad = "example_data\<lparr>IntervalStyleField := IntervalStyle_SQL_STANDARD\<rparr>"
  have path: "RuntimeSet (var ?n) = None" "SetWithPlanner (var ?n) = None"
    "Set (var ?n) = Some (lockTimeoutVarSet example_env)" "\<not> local ?n"
    by (simp_all add: lock_timeout_plan_def lock_timeout_var_def)
  have ok: "lockTimeoutVarSet example_env ''5s'' example_data
              = (None, example_data\<lparr>LockTimeout := 5000000000\<rparr>)"
    by (rule lock_setter_ok) (simp add: example_data_def)
  have bad: "lockTimeoutVarSet example_env ''5s'' ?bad
              = (Some (wrapSetVarError ''lock_timeout'' ''5s'' ''%v''
                         [ArgE (GoError ''could not parse interval'')]), ?bad)"
    by (rule lock_setter_fails) simp
  note thm1 = set_session_applies_to_every_mutator
      [OF path, where e = example_env and strVal = "''5s''"
        and p = "example_planner [example_data, example_data] False",
        OF lock_plan_strVal]
  note thm2 = set_session_applies_to_every_mutator
      [OF path, where e = example_env and strVal = "''5s''"
        and p = "example_planner [example_data, example_data, ?bad, example_data, example_data] False"
        and pre = "[example_data, example_data]" and m = ?bad
        and post = "[example_data, example_data]",
        OF lock_plan_strVal]
  from thm1 have 1: "startExec example_env ?n (example_planner [example_data, example_data] False)
      = (None, example_planner [example_data\<lparr>LockTimeout := 5000000000\<rparr>,
                             example_data\<lparr>LockTimeout := 5000000000\<rparr>] False)"
    by (simp add: ok lock_plan_dummy example_planner_def)
  from thm2 have 2: "startExec example_env ?n
       (example_planner [example_data, example_data, ?bad, example_data, example_data] False)
      = (Some (wrapSetVarError ''lock_timeout'' ''5s'' ''%v''
              [ArgE (GoError ''could not parse interval'')]),
      example_planner
        [example_data\<lparr>LockTimeout := 5000000000\<rparr>,
         example_data\<lparr>LockTimeout := 5000000000\<rparr>, ?bad, example_data, example_data] False)"
    by (simp add: ok bad lock_plan_dummy example_planner_def)
  from 1 2 show ?thesis by simp
qed


text \<open>
  The scoping rule for SET LOCAL, for any function \<open>applyFunc\<close> that applies the setter to
  one mutator: a notice and nothing else in an implicit transaction, the topmost mutator only
  in an explicit one.
\<close>

lemma applyOnSessionDataMutators_local:
  "(TxnImplicit p \<longrightarrow>
      applyOnSessionDataMutators True applyFunc p =
        (None, p\<lparr>notices := notices p @
                    [NewWithSeverityf ''WARNING''
                       ''SET LOCAL can only be used in transaction blocks'' []]\<rparr>))
   \<and> (\<not> TxnImplicit p \<and> mutators p \<noteq> [] \<longrightarrow>
      applyOnSessionDataMutators True applyFunc p =
        (fst (applyFunc (last (mutators p))),
         p\<lparr>mutators := butlast (mutators p) @ [snd (applyFunc (last (mutators p)))]\<rparr>))"
  by (simp add: applyOnSessionDataMutators_def BufferClientNotice_def applyOnTopMutator_def
        split: prod.splits)

lemma startExec_dummy_notices:
  "notices (startExec_dummy e n p) =
     notices p @ (if name n \<in> DummyVars e
                  then [NewWithSeverityf ''WARNING'' ''setting session var %q is a no-op'' [name n]]
                  else [])"
  by (simp add: startExec_dummy_def BufferClientNotice_def)

text \<open>
  Claim C2, as amended. A SET LOCAL execution that takes the generic setter path (no runtime
  setter, no planner setter, \<open>local\<close> true) and has resolved its value \<open>strVal\<close>; an execution
  whose value does not resolve returns that error instead. In an implicit transaction
  \<^verbatim>\<open>startExec\<close> changes no mutator, returns no error and buffers exactly one notice for the
  no-op, the WARNING "SET LOCAL can only be used in transaction blocks"; the only other
  notice of the execution is the WARNING that a dummy variable gets before, so the execution
  buffers one WARNING notice for an ordinary variable and two for a dummy variable. In an
  explicit transaction the setter is applied with \<open>strVal\<close> to the topmost mutator only: every
  other mutator is as before, the result is what that one call returned, and no notice is
  buffered for the scope.
\<close>

theorem set_local_startExec:
  assumes "RuntimeSet (var n) = None" and "SetWithPlanner (var n) = None" and "local n"
    and "startExec_strVal e n (startExec_dummy e n p) = Inr strVal"
  shows "(TxnImplicit p \<longrightarrow>
            startExec e n p =
              (None, BufferClientNotice
                       (NewWithSeverityf ''WARNING''
                          ''SET LOCAL can only be used in transaction blocks'' [])
                       (startExec_dummy e n p))
          \<and> mutators (snd (startExec e n p)) = mutators p
          \<and> notices (snd (startExec e n p)) =
              notices p
              @ (if name n \<in> DummyVars e
                 then [NewWithSeverityf ''WARNING'' ''setting session var %q is a no-op'' [name n]]
                 else [])
              @ [NewWithSeverityf ''WARNING''
                   ''SET LOCAL can only be used in transaction blocks'' []])
       \<and> (\<not> TxnImplicit p \<and> mutators p \<noteq> [] \<and> Set (var n) = Some setter \<longrightarrow>
            startExec e n p =
              (fst (setter strVal (last (mutators p))),
               (startExec_dummy e n p)
                 \<lparr>mutators := butlast (mutators p) @ [snd (setter strVal (last (mutators p)))]\<rparr>)
          \<and> notices (snd (startExec e n p)) = notices (startExec_dummy e n p))"
proof (intro conjI impI)
  let ?f = "\<lambda>m. case Set (var n) of Some setter \<Rightarrow> setter strVal m
                                   | None \<Rightarrow> (Some (GoPanic ''nil function''), m)"
  have run: "startExec e n p = applyOnSessionDataMutators True ?f (startExec_dummy e n p)"
    using assms by (simp add: startExec_def startExec_dispatch_def)
  {
    assume imp: "TxnImplicit p"
    then have "TxnImplicit (startExec_dummy e n p)"
      by (simp add: startExec_dummy_fields)
    with applyOnSessionDataMutators_local [of "startExec_dummy e n p" ?f]
    show eq: "startExec e n p =
              (None, BufferClientNotice
                       (NewWithSeverityf ''WARNING''
                          ''SET LOCAL can only be used in transaction blocks'' [])
                       (startExec_dummy e n p))"
      by (simp add: run BufferClientNotice_def)
    show "mutators (snd (startExec e n p)) = mutators p"
      by (simp add: eq BufferClientNotice_def startExec_dummy_fields)
    show "notices (snd (startExec e n p)) =
              notices p
              @ (if name n \<in> DummyVars e
                 then [NewWithSeverityf ''WARNING'' ''setting session var %q is a no-op'' [name n]]
                 else [])
              @ [NewWithSeverityf ''WARNING''
                   ''SET LOCAL can only be used in transaction blocks'' []]"
      by (simp add: eq BufferClientNotice_def startExec_dummy_notices)
  }
  {
    assume ex: "\<not> TxnImplicit p \<and> mutators p \<noteq> [] \<and> Set (var n) = Some setter"
    then have "\<not> TxnImplicit (startExec_dummy e n p) \<and> mutators (startExec_dummy e n p) \<noteq> []"
      by (simp add: startExec_dummy_fields)
    with applyOnSessionDataMutators_local [of "startExec_dummy e n p" ?f] ex
    show eq: "startExec e n p =
              (fst (setter strVal (last (mutators p))),
               (startExec_dummy e n p)
                 \<lparr>mutators := butlast (mutators p) @ [snd (setter strVal (last (mutators p)))]\<rparr>)"
      by (simp add: run startExec_dummy_fields)
    show "notices (snd (startExec e n p)) = notices (startExec_dummy e n p)"
      by (simp add: eq)
  }
qed

theorem set_local_startExec_witness:
  "startExec example_env (lock_timeout_plan True (Some [Datum (DString ''5s'')]))
     (example_planner [example_data, example_data] True)
   = (None, (example_planner [example_data, example_data] True)
        \<lparr>notices := [NewWithSeverityf ''WARNING''
                       ''SET LOCAL can only be used in transaction blocks'' []]\<rparr>)
   \<and> startExec example_env (lock_timeout_plan True (Some [Datum (DString ''5s'')]))
     (example_planner [example_data, example_data] False)
   = (None, example_planner [example_data, example_data\<lparr>LockTimeout := 5000000000\<rparr>] False)"
proof -
  let ?n = "lock_timeout_plan True (Some [Datum (DString ''5s'')])"
  have path: "RuntimeSet (var ?n) = None" "SetWithPlanner (var ?n) = None" "local ?n"
    by (simp_all add: lock_timeout_plan_def lock_timeout_var_def)
  have st: "Set (var ?n) = Some (lockTimeoutVarSet example_env)"
    by (simp add: lock_timeout_plan_def lock_timeout_var_def)
  have ok: "lockTimeoutVarSet example_env ''5s'' example_data
              = (None, example_data\<lparr>LockTimeout := 5000000000\<rparr>)"
    by (rule lock_setter_ok) (simp add: example_data_def)
  from set_local_startExec
         [where p = "example_planner [example_data, example_data] True"
            and setter = "lockTimeoutVarSet example_env", OF path lock_plan_strVal]
  have 1: "startExec example_env ?n (example_planner [example_data, example_data] True)
      = (None, (example_planner [example_data, example_data] True)
        \<lparr>notices := [NewWithSeverityf ''WARNING''
                       ''SET LOCAL can only be used in transaction blocks'' []]\<rparr>)"
    by (simp add: lock_plan_dummy example_planner_def BufferClientNotice_def)
  from set_local_startExec
         [where p = "example_planner [example_data, example_data] False"
            and setter = "lockTimeoutVarSet example_env", OF path lock_plan_strVal] st
  have 2: "startExec example_env ?n (example_planner [example_data, example_data] False)
      = (None, example_planner [example_data, example_data\<lparr>LockTimeout := 5000000000\<rparr>] False)"
    by (simp add: lock_plan_dummy example_planner_def ok)
  from 1 2 show ?thesis by simp
qed

text \<open>
  The claim C2 as first stated, "exactly one WARNING notice", fails on a SET LOCAL of a dummy
  variable in an implicit transaction: the execution is on the generic setter path, changes
  no mutator and returns no error, and it buffers two WARNING notices, the one for the dummy
  variable and the one for the no-op.
\<close>

theorem set_local_exactly_one_warning_counterexample:
  "RuntimeSet (var enable_seqscan_plan) = None
   \<and> SetWithPlanner (var enable_seqscan_plan) = None
   \<and> local enable_seqscan_plan
   \<and> startExec example_env enable_seqscan_plan (example_planner [example_data] True)
     = (None, (example_planner [example_data] True)
          \<lparr>notices :=
             [NewWithSeverityf ''WARNING'' ''setting session var %q is a no-op''
                [''enable_seqscan''],
              NewWithSeverityf ''WARNING''
                ''SET LOCAL can only be used in transaction blocks'' []],
           counters := [''DummySessionVarValueCounter enable_seqscan'']\<rparr>)
   \<and> map severity
         (notices (snd (startExec example_env enable_seqscan_plan
                          (example_planner [example_data] True))))
     = [''WARNING'', ''WARNING'']"
proof -
  let ?p = "example_planner [example_data] True"
  have d: "startExec_dummy example_env enable_seqscan_plan ?p
             = ?p\<lparr>notices := [NewWithSeverityf ''WARNING'' ''setting session var %q is a no-op''
                                [''enable_seqscan'']],
                   counters := [''DummySessionVarValueCounter enable_seqscan'']\<rparr>"
    by (simp add: startExec_dummy_def enable_seqscan_plan_def example_env_def
          example_planner_def BufferClientNotice_def)
  have sv: "startExec_strVal example_env enable_seqscan_plan q = Inr ''on''" for q
    by (simp add: startExec_strVal_def enable_seqscan_plan_def three_setters_var_def
          getStringVal_def Eval_def example_env_def)
  have run: "startExec example_env enable_seqscan_plan ?p
     = (None, ?p\<lparr>notices :=
             [NewWithSeverityf ''WARNING'' ''setting session var %q is a no-op''
                [''enable_seqscan''],
              NewWithSeverityf ''WARNING''
                ''SET LOCAL can only be used in transaction blocks'' []],
           counters := [''DummySessionVarValueCounter enable_seqscan'']\<rparr>)"
    by (simp add: startExec_def sv d)
       (simp add: startExec_dispatch_def enable_seqscan_plan_def three_setters_var_def
          applyOnSessionDataMutators_def example_planner_def BufferClientNotice_def)
  show ?thesis
    by (simp add: run)
       (simp add: enable_seqscan_plan_def three_setters_var_def NewWithSeverityf_def)
qed

subsection \<open>Dispatch to the setter strategies\<close>

lemma startExec_dispatch_invoke:
  "startExec_dispatch n strVal p = invokeStrategy (selectStrategy (var n)) n strVal p"
  by (cases "RuntimeSet (var n)"; cases "SetWithPlanner (var n)")
     (simp_all add: startExec_dispatch_def selectStrategy_def)

lemma startExec_strVal_setters:
  "startExec_strVal e (n\<lparr>var := (var n)\<lparr>Set := setter, SetWithPlanner := planner_setter\<rparr>\<rparr>) p
     = startExec_strVal e n p"
  "startExec_strVal e (n\<lparr>var := (var n)\<lparr>Set := setter\<rparr>\<rparr>) p = startExec_strVal e n p"
  by (simp_all add: startExec_strVal_def getSessionVarDefaultString_def
        split: option.splits sum.splits)

lemma startExec_dummy_setters:
  "startExec_dummy e (n\<lparr>var := v\<rparr>) p = startExec_dummy e n p"
  by (simp add: startExec_dummy_def)

lemma startExec_dispatch_runtime:
  "RuntimeSet (var n) = Some rs \<Longrightarrow>
   startExec_dispatch (n\<lparr>var := (var n)\<lparr>Set := setter, SetWithPlanner := planner_setter\<rparr>\<rparr>)
     strVal p = startExec_dispatch n strVal p"
  by (simp add: startExec_dispatch_def)

lemma startExec_dispatch_planner:
  "RuntimeSet (var n) = None \<Longrightarrow> SetWithPlanner (var n) = Some ps \<Longrightarrow>
   startExec_dispatch (n\<lparr>var := (var n)\<lparr>Set := setter\<rparr>\<rparr>) strVal p
     = startExec_dispatch n strVal p"
  by (simp add: startExec_dispatch_def)

text \<open>
  Claim C3, as amended. An execution of a plan invokes at most one of the three setter
  strategies. When the value of the statement cannot be computed (an expression fails to
  evaluate, or the converter rejects the values) the execution returns that error and
  invokes none. Otherwise it invokes exactly the strategy that the precedence selects:
  the runtime setter if there is one, else the planner setter if there is one, else the
  generic setter through the scoping rule. Whenever there is a runtime setter, the outcome
  is the same whatever the planner setter and the generic setter are: neither is called.
  Likewise the generic setter is not called when there is a planner setter.
\<close>

theorem startExec_dispatch_precedence:
  "startExec e n p =
     (case startExec_strVal e n (startExec_dummy e n p) of
        Inl err \<Rightarrow> (Some err, startExec_dummy e n p)
      | Inr strVal \<Rightarrow>
          invokeStrategy (selectStrategy (var n)) n strVal (startExec_dummy e n p))
   \<and> (RuntimeSet (var n) \<noteq> None \<longrightarrow>
        (\<forall>setter planner_setter.
           startExec e (n\<lparr>var := (var n)\<lparr>Set := setter, SetWithPlanner := planner_setter\<rparr>\<rparr>) p
             = startExec e n p))
   \<and> (RuntimeSet (var n) = None \<and> SetWithPlanner (var n) \<noteq> None \<longrightarrow>
        (\<forall>setter. startExec e (n\<lparr>var := (var n)\<lparr>Set := setter\<rparr>\<rparr>) p = startExec e n p))"
proof (intro conjI impI allI)
  show "startExec e n p =
     (case startExec_strVal e n (startExec_dummy e n p) of
        Inl err \<Rightarrow> (Some err, startExec_dummy e n p)
      | Inr strVal \<Rightarrow>
          invokeStrategy (selectStrategy (var n)) n strVal (startExec_dummy e n p))"
    by (simp add: startExec_def startExec_dispatch_invoke Let_def split: sum.splits)
next
  fix setter planner_setter
  assume "RuntimeSet (var n) \<noteq> None"
  then obtain rs where rs: "RuntimeSet (var n) = Some rs" by auto
  then show "startExec e (n\<lparr>var := (var n)\<lparr>Set := setter, SetWithPlanner := planner_setter\<rparr>\<rparr>) p
             = startExec e n p"
    by (simp add: startExec_def startExec_strVal_setters startExec_dummy_setters
          startExec_dispatch_runtime Let_def split: sum.splits)
next
  fix setter
  assume "RuntimeSet (var n) = None \<and> SetWithPlanner (var n) \<noteq> None"
  then obtain ps where "RuntimeSet (var n) = None" "SetWithPlanner (var n) = Some ps" by auto
  then show "startExec e (n\<lparr>var := (var n)\<lparr>Set := setter\<rparr>\<rparr>) p = startExec e n p"
    by (simp add: startExec_def startExec_strVal_setters startExec_dummy_setters
          startExec_dispatch_planner Let_def split: sum.splits)
qed

lemma three_setters_dummy:
  "startExec_dummy example_env (three_setters_plan tvs) p = p"
  by (simp add: startExec_dummy_def three_setters_plan_def example_env_def)

theorem startExec_dispatch_precedence_witness:
  "RuntimeSet (var (three_setters_plan (Some [Datum (DString ''on'')]))) \<noteq> None
   \<and> startExec example_env (three_setters_plan (Some [Datum (DString ''on'')]))
       (example_planner [example_data] False)
     = (None, (example_planner [example_data] False)\<lparr>counters := [''RuntimeSet'']\<rparr>)
   \<and> startExec example_env
       ((three_setters_plan (Some [Datum (DString ''on'')]))
          \<lparr>var := (var (three_setters_plan (Some [Datum (DString ''on'')])))
                    \<lparr>Set := None, SetWithPlanner := None\<rparr>\<rparr>)
       (example_planner [example_data] False)
     = (None, (example_planner [example_data] False)\<lparr>counters := [''RuntimeSet'']\<rparr>)
   \<and> startExec example_env (planner_setter_plan (Some [Datum (DString ''on'')]))
       (example_planner [example_data] False)
     = (None, (example_planner [example_data] False)\<lparr>counters := [''SetWithPlanner'']\<rparr>)
   \<and> startExec example_env
       ((planner_setter_plan (Some [Datum (DString ''on'')]))
          \<lparr>var := (var (planner_setter_plan (Some [Datum (DString ''on'')])))\<lparr>Set := None\<rparr>\<rparr>)
       (example_planner [example_data] False)
     = (None, (example_planner [example_data] False)\<lparr>counters := [''SetWithPlanner'']\<rparr>)"
proof -
  let ?n = "three_setters_plan (Some [Datum (DString ''on'')])"
  let ?m = "planner_setter_plan (Some [Datum (DString ''on'')])"
  let ?p = "example_planner [example_data] False"
  have rs: "RuntimeSet (var ?n) \<noteq> None"
    by (simp add: three_setters_plan_def three_setters_var_def)
  have ps: "RuntimeSet (var ?m) = None \<and> SetWithPlanner (var ?m) \<noteq> None"
    by (simp add: planner_setter_plan_def three_setters_var_def)
  have sv: "startExec_strVal example_env ?n ?p = Inr ''on''"
    "startExec_strVal example_env ?m ?p = Inr ''on''"
    by (simp_all add: startExec_strVal_def three_setters_plan_def planner_setter_plan_def
          three_setters_var_def getStringVal_def Eval_def example_env_def)
  have dm: "startExec_dummy example_env ?m ?p = ?p"
    by (simp add: startExec_dummy_def planner_setter_plan_def example_env_def)
  have sel: "selectStrategy (var ?n) = RuntimeSetter" "selectStrategy (var ?m) = PlannerSetter"
    by (simp_all add: selectStrategy_def three_setters_plan_def planner_setter_plan_def
          three_setters_var_def)
  have inv: "invokeStrategy RuntimeSetter ?n ''on'' ?p = (None, ?p\<lparr>counters := [''RuntimeSet'']\<rparr>)"
    "invokeStrategy PlannerSetter ?m ''on'' ?p = (None, ?p\<lparr>counters := [''SetWithPlanner'']\<rparr>)"
    by (simp_all add: three_setters_plan_def planner_setter_plan_def three_setters_var_def
          example_planner_def)
  from startExec_dispatch_precedence [of example_env ?n ?p, THEN conjunct1]
  have 1: "startExec example_env ?n ?p = (None, ?p\<lparr>counters := [''RuntimeSet'']\<rparr>)"
    by (simp only: three_setters_dummy sv sel inv sum.case)
  from startExec_dispatch_precedence [of example_env ?n ?p] rs
  have 2: "startExec example_env (?n\<lparr>var := (var ?n)\<lparr>Set := None, SetWithPlanner := None\<rparr>\<rparr>) ?p
            = startExec example_env ?n ?p"
    by blast
  from startExec_dispatch_precedence [of example_env ?m ?p, THEN conjunct1]
  have 3: "startExec example_env ?m ?p = (None, ?p\<lparr>counters := [''SetWithPlanner'']\<rparr>)"
    by (simp only: dm sv sel inv sum.case)
  from startExec_dispatch_precedence [of example_env ?m ?p] ps
  have 4: "startExec example_env (?m\<lparr>var := (var ?m)\<lparr>Set := None\<rparr>\<rparr>) ?p
            = startExec example_env ?m ?p"
    by blast
  from rs 1 2 3 4 show ?thesis by simp
qed

text \<open>
  The claim C3 as first stated, "every execution invokes exactly one strategy", fails on a
  plan whose value does not evaluate: \<^verbatim>\<open>startExec\<close> returns the evaluation error before the
  dispatch, and the outcome is not that of invoking any of the three setters, which never
  fail here.
\<close>

theorem startExec_exactly_one_strategy_counterexample:
  "startExec example_env (three_setters_plan (Some [Deferred ''1/0'']))
     (example_planner [example_data] False)
   = (Some (GoError ''division by zero''), example_planner [example_data] False)
   \<and> \<not> (\<exists>st strVal.
          startExec example_env (three_setters_plan (Some [Deferred ''1/0'']))
            (example_planner [example_data] False)
          = invokeStrategy st (three_setters_plan (Some [Deferred ''1/0''])) strVal
              (example_planner [example_data] False))"
proof -
  let ?n = "three_setters_plan (Some [Deferred ''1/0''])"
  let ?p = "example_planner [example_data] False"
  have sv: "startExec_strVal example_env ?n ?p = Inl (GoError ''division by zero'')"
    by (simp add: startExec_strVal_def three_setters_plan_def Eval_def example_env_def)
  have run: "startExec example_env ?n ?p = (Some (GoError ''division by zero''), ?p)"
    by (simp add: startExec_def three_setters_dummy sv)
  have "fst (invokeStrategy st ?n strVal ?p) = None" for st strVal
    by (cases st)
       (simp_all add: three_setters_plan_def three_setters_var_def example_planner_def
          applyOnSessionDataMutators_def)
  then have "startExec example_env ?n ?p \<noteq> invokeStrategy st ?n strVal ?p" for st strVal
    by (metis run fst_conv option.distinct(1))
  with run show ?thesis by simp
qed

subsection \<open>Compilation, and RESET without a default\<close>

lemma cannot_change_simps [simp]:
  "newCannotChangeParameterError x \<noteq> wrapSetVarError a b c d"
  "newCannotChangeParameterError x \<noteq> Newf Syntax f as"
  "newCannotChangeParameterError x \<noteq> Newf UndefinedObject f as"
  "wrapSetVarError a b c d \<noteq> newCannotChangeParameterError x"
  "Newf Syntax f as \<noteq> newCannotChangeParameterError x"
  "Newf UndefinedObject f as \<noteq> newCannotChangeParameterError x"
  "(newCannotChangeParameterError x = newCannotChangeParameterError y) = (x = y)"
  by (simp_all add: newCannotChangeParameterError_def wrapSetVarError_def Newf_def)

lemma analyzeValues_error:
  "analyzeValues e lname xs = Inl err \<Longrightarrow> err \<noteq> newCannotChangeParameterError x"
proof (induction xs arbitrary: err)
  case Nil
  then show ?case by simp
next
  case (Cons a xs)
  then show ?case
    by (auto simp: Let_def split: sum.splits)
qed

lemma isResetRequest_alt:
  "isResetRequest n = (\<not> (length (Values n) > 0 \<and> \<not> (length (Values n) = 1 \<and> hd (Values n) = DefaultVal)))"
  by (cases "Values n") (auto simp: isResetRequest_def)

text \<open>
  Claim C4, as amended. \<^verbatim>\<open>SetVar\<close> checks the name, looks the variable up and type-checks the
  values of an assignment before it looks at the setters. So it fails with the
  "cannot be changed" error exactly when the name is not empty and is registered, the values
  of an assignment type-check, and either the descriptor has all three setters nil (for an
  assignment and for a RESET) or the request is a RESET and the variable has neither a session
  default nor a global default. The error then names the lower-cased variable, and the result
  is an error: no plan is produced (\<^verbatim>\<open>SetVar\<close> writes to no state).
\<close>

theorem SetVar_cannot_change_iff:
  "(SetVar e registry p n = Inl (newCannotChangeParameterError (strings_ToLower e (Name n)))
      \<longleftrightarrow>
     (Name n \<noteq> [] \<and>
      (\<exists>v. registry (strings_ToLower e (Name n)) = Some v \<and>
           (isResetRequest n \<or>
            (\<exists>tvs. analyzeValues e (strings_ToLower e (Name n)) (Values n) = Inr tvs)) \<and>
           (Set v = None \<and> RuntimeSet v = None \<and> SetWithPlanner v = None \<or>
            isResetRequest n \<and> defaults p (strings_ToLower e (Name n)) = None \<and>
              GlobalDefault v = None))))
   \<and> (\<forall>x. SetVar e registry p n = Inl (newCannotChangeParameterError x) \<longrightarrow>
            x = strings_ToLower e (Name n))"
proof (cases "Name n = []")
  case True
  then show ?thesis by (simp add: SetVar_def)
next
  case nonempty: False
  show ?thesis
  proof (cases "registry (strings_ToLower e (Name n))")
    case None
    with nonempty show ?thesis by (simp add: SetVar_def getSessionVar_def Let_def)
  next
    case (Some v)
    show ?thesis
    proof (cases "isResetRequest n")
      case True
      with nonempty Some show ?thesis
        by (auto simp: SetVar_def getSessionVar_def Let_def isResetRequest_alt)
    next
      case False
      show ?thesis
      proof (cases "analyzeValues e (strings_ToLower e (Name n)) (Values n)")
        case (Inl err)
        with nonempty Some False analyzeValues_error [OF Inl] show ?thesis
          by (auto simp: SetVar_def getSessionVar_def Let_def isResetRequest_alt)
      next
        case (Inr tvs)
        with nonempty Some False show ?thesis
          by (auto simp: SetVar_def getSessionVar_def Let_def isResetRequest_alt)
      qed
    qed
  qed
qed

theorem SetVar_cannot_change_iff_witness:
  "SetVar example_env example_registry (example_planner [example_data] True)
     \<lparr>Name = ''server_version'', Values = [Expr ''9.5''], Local = False\<rparr>
     = Inl (newCannotChangeParameterError ''server_version'')
   \<and> SetVar example_env example_registry (example_planner [example_data] True)
     \<lparr>Name = ''server_version'', Values = [], Local = False\<rparr>
     = Inl (newCannotChangeParameterError ''server_version'')
   \<and> SetVar example_env example_registry (example_planner [example_data] True)
     \<lparr>Name = ''lock_timeout'', Values = [DefaultVal], Local = False\<rparr>
     = Inr (lock_timeout_plan False None)"
proof -
  let ?p = "example_planner [example_data] True"
  let ?a = "\<lparr>Name = ''server_version'', Values = [Expr ''9.5''], Local = False\<rparr>"
  let ?r = "\<lparr>Name = ''server_version'', Values = [], Local = False\<rparr>"
  have low: "strings_ToLower example_env s = s" for s
    by (simp add: example_env_def)
  have reg: "example_registry ''server_version'' = Some server_version_var"
    by (simp add: example_registry_def)
  have an: "analyzeValues example_env ''server_version'' [Expr ''9.5''] = Inr [Deferred ''9.5'']"
    by (simp add: example_env_def)
  have nil: "Set server_version_var = None" "RuntimeSet server_version_var = None"
    "SetWithPlanner server_version_var = None"
    by (simp_all add: server_version_var_def)
  from SetVar_cannot_change_iff [of example_env example_registry ?p ?a, THEN conjunct1]
  have 1: "SetVar example_env example_registry ?p ?a
             = Inl (newCannotChangeParameterError ''server_version'')"
    by (simp add: low reg an nil del: analyzeValues.simps)
  from SetVar_cannot_change_iff [of example_env example_registry ?p ?r, THEN conjunct1]
  have 2: "SetVar example_env example_registry ?p ?r
             = Inl (newCannotChangeParameterError ''server_version'')"
    by (simp add: low reg nil isResetRequest_def)
  have 3: "SetVar example_env example_registry ?p
             \<lparr>Name = ''lock_timeout'', Values = [DefaultVal], Local = False\<rparr>
           = Inr (lock_timeout_plan False None)"
    by (simp add: SetVar_def getSessionVar_def low example_registry_def lock_timeout_var_def
          lock_timeout_plan_def Let_def)
  from 1 2 3 show ?thesis by simp
qed

text \<open>
  The claim C4 as first stated fails on an assignment to a read-only variable whose value
  does not type-check: the descriptor has no setter, and the error is the value error of the
  type check, not the "cannot be changed" error.
\<close>

theorem SetVar_cannot_change_counterexample:
  "example_registry ''server_version'' = Some server_version_var
   \<and> Set server_version_var = None \<and> RuntimeSet server_version_var = None
   \<and> SetWithPlanner server_version_var = None
   \<and> SetVar example_env example_registry (example_planner [example_data] True)
       \<lparr>Name = ''server_version'', Values = [Expr ''1 + true''], Local = False\<rparr>
     = Inl (wrapSetVarError ''server_version'' ''1 + true'' ''%v''
              [ArgE (GoError ''unsupported binary operator'')])
   \<and> SetVar example_env example_registry (example_planner [example_data] True)
       \<lparr>Name = ''server_version'', Values = [Expr ''1 + true''], Local = False\<rparr>
     \<noteq> Inl (newCannotChangeParameterError ''server_version'')"
  by (simp add: SetVar_def getSessionVar_def example_registry_def server_version_var_def
        example_env_def wrapSetVarError_def newCannotChangeParameterError_def Newf_def)

lemma startExec_dummy_defaults:
  "defaults (startExec_dummy e n p) = defaults p"
  by (simp add: startExec_dummy_def BufferClientNotice_def)

text \<open>
  Claim C10. When a RESET plan is executed and the variable has neither a session default nor
  a global default, \<^verbatim>\<open>getSessionVarDefaultString\<close> returns the flag false and the empty string;
  \<^verbatim>\<open>startExec\<close> drops the flag and dispatches the empty string to the setters as the value of
  the variable. The execution does not fail for the missing default.
\<close>

theorem reset_without_default_applies_empty_string:
  assumes "typedValues n = None" and "defaults p (name n) = None"
    and "GlobalDefault (var n) = None"
  shows "getSessionVarDefaultString (name n) (var n) p = (False, [])
       \<and> startExec e n p = startExec_dispatch n [] (startExec_dummy e n p)"
  using assms
  by (simp add: startExec_def startExec_strVal_def getSessionVarDefaultString_def
        startExec_dummy_defaults Let_def)

theorem reset_without_default_applies_empty_string_witness:
  "getSessionVarDefaultString (name (generic_setter_plan None)) (var (generic_setter_plan None))
     (example_planner [example_data, example_data] False) = (False, [])
   \<and> startExec example_env (generic_setter_plan None)
       (example_planner [example_data, example_data] False)
     = (None, example_planner [example_data\<lparr>Location := LoadedZone []\<rparr>,
                               example_data\<lparr>Location := LoadedZone []\<rparr>] False)"
proof -
  let ?n = "generic_setter_plan None"
  let ?p = "example_planner [example_data, example_data] False"
  have h: "typedValues ?n = None" "defaults ?p (name ?n) = None" "GlobalDefault (var ?n) = None"
    by (simp_all add: generic_setter_plan_def three_setters_var_def example_planner_def)
  have d: "startExec_dummy example_env ?n ?p = ?p"
    by (simp add: startExec_dummy_def generic_setter_plan_def example_env_def)
  have run: "startExec_dispatch ?n [] ?p
      = (None, example_planner [example_data\<lparr>Location := LoadedZone []\<rparr>,
                               example_data\<lparr>Location := LoadedZone []\<rparr>] False)"
    by (simp add: startExec_dispatch_def generic_setter_plan_def three_setters_var_def
          applyOnSessionDataMutators_def example_planner_def)
  from reset_without_default_applies_empty_string [OF h, of example_env] show ?thesis
    by (simp only: d run) 
qed

subsection \<open>The time-zone converter\<close>

lemma sint_word_of_int_64:
  "- (2 ^ 63) \<le> x \<Longrightarrow> x < 2 ^ 63 \<Longrightarrow> sint (word_of_int x :: 64 word) = x"
  by (simp add: sint_sbintrunc' signed_take_bit_int_eq_self)

lemma sint_int64_quo:
  "sint (int64_quo a time_Second) = sint a sdiv 1000000000"
proof -
  have lo: "- (2 ^ 63) \<le> sint a" and hi: "sint a < 2 ^ 63"
    using sint_ge [of a] sint_lt [of a] by simp_all
  let ?q = "sint a sdiv (1000000000 :: int)"
  have q: "?q = (if 0 \<le> sint a then sint a div 1000000000 else - ((- sint a) div 1000000000))"
    by (simp add: signed_divide_int_def sgn_if)
  have "- (2 ^ 63) \<le> ?q \<and> ?q < 2 ^ 63"
    using lo hi unfolding q by auto
  then have "sint (word_of_int ?q :: 64 word) = ?q"
    by (intro sint_word_of_int_64) simp_all
  then show ?thesis
    by (simp add: int64_quo_def time_Second_def)
qed

lemma decimal_Int64_value:
  assumes "decimal_Int64 (Finite neg c ex) = Inr off"
  shows "real_of_int (sint off) = decimal_value neg c ex"
proof -
  define integ :: int where
    "integ = (if ex < 0 then int c div 10 ^ nat (- ex) else int c * 10 ^ nat ex)"
  from assms have frac: "ex < 0 \<Longrightarrow> c mod 10 ^ nat (- ex) = 0"
    by (auto simp: decimal_Int64_def split: if_splits)
  from assms have bound: "integ \<le> (if neg then 2 ^ 63 else 2 ^ 63 - 1)"
    and off: "off = word_of_int (if neg then - integ else integ)"
    by (auto simp: decimal_Int64_def integ_def Let_def split: if_splits)
  have nonneg: "0 \<le> integ"
    by (simp add: integ_def pos_imp_zdiv_nonneg_iff)
  have "sint off = (if neg then - integ else integ)"
    unfolding off using bound nonneg
    by (intro sint_word_of_int_64) (auto split: if_splits)
  moreover have "real_of_int integ =
      (if ex < 0 then real c / 10 ^ nat (- ex) else real c * 10 ^ nat ex)"
  proof (cases "ex < 0")
    case True
    then have "(10 :: nat) ^ nat (- ex) dvd c"
      using frac by (simp add: dvd_eq_mod_eq_0)
    then have "real (c div 10 ^ nat (- ex)) = real c / real (10 ^ nat (- ex))"
      by (rule real_of_nat_div)
    moreover have "integ = int (c div 10 ^ nat (- ex))"
      using True by (simp add: integ_def zdiv_int)
    ultimately show ?thesis using True by simp
  next
    case False
    then show ?thesis by (simp add: integ_def)
  qed
  ultimately show ?thesis
    by (simp add: decimal_value_def)
qed

lemma decimal_value_scale:
  "decimal_value (False \<noteq> neg) (60 * 60 * c) (0 + ex) = 3600 * decimal_value neg c ex"
  by (simp add: decimal_value_def)

lemma timeZone_decimal:
  "timeZoneVarLocation e [Datum (DDecimal (Finite neg c ex))] =
     (case decimal_Int64 (Finite (False \<noteq> neg) (60 * 60 * c) (0 + ex)) of
        Inl err \<Rightarrow>
          Inl (wrapSetVarError ''timezone'' (exprString e (Datum (DDecimal (Finite neg c ex))))
                 ''time zone value %s would overflow an int64''
                 [ArgS (decimalString e (Finite (False \<noteq> neg) (60 * 60 * c) (0 + ex)))])
      | Inr offset \<Rightarrow>
          Inr (FixedOffsetZone (sint offset)
                 (exprString e (Datum (DDecimal (Finite neg c ex))))))"
  by (simp add: timeZoneVarLocation_def Eval_def apd_New_def ErrDecimal_Mul_def
        ErrDecimal_Int64_def FixedOffsetTimeZoneToLocation_def split: sum.splits)

lemma timeZone_decimal_not_finite:
  "d = NaN \<or> d = Infinite neg \<Longrightarrow>
   timeZoneVarLocation e [Datum (DDecimal d)] =
     Inl (wrapSetVarError ''timezone'' (exprString e (Datum (DDecimal d)))
            ''time zone value %s would overflow an int64''
            [ArgS (decimalString e (exact_Mul (Finite False 3600 0) d))])"
  by (auto simp: timeZoneVarLocation_def Eval_def apd_New_def ErrDecimal_Mul_def
        ErrDecimal_Int64_def decimal_Int64_def)

lemma timeZone_decimal_exact:
  assumes "timeZoneVarLocation e [Datum (DDecimal (Finite neg c ex))] = Inr loc"
  shows "\<exists>offset. loc = FixedOffsetZone offset (exprString e (Datum (DDecimal (Finite neg c ex))))
           \<and> real_of_int offset = 3600 * decimal_value neg c ex
           \<and> - (2 ^ 63) \<le> offset \<and> offset < 2 ^ 63"
proof (cases "decimal_Int64 (Finite (False \<noteq> neg) (60 * 60 * c) (0 + ex))")
  case (Inl err)
  with assms show ?thesis by (simp add: timeZone_decimal)
next
  case (Inr off)
  from decimal_Int64_value [OF Inr]
  have v: "real_of_int (sint off) = 3600 * decimal_value neg c ex"
    by (simp only: decimal_value_scale)
  have r: "- (2 ^ 63) \<le> sint off" "sint off < 2 ^ 63"
    using sint_ge [of off] sint_lt [of off] by simp_all
  from assms Inr
  have "loc = FixedOffsetZone (sint off) (exprString e (Datum (DDecimal (Finite neg c ex))))"
    by (simp add: timeZone_decimal)
  with v r show ?thesis by blast
qed

lemma overflow_in_detail:
  "sublist ''overflow'' ''time zone value %s would overflow an int64''"
  unfolding sublist_def
  by (rule exI [of _ "''time zone value %s would ''"], rule exI [of _ "'' an int64''"]) simp

text \<open>
  Claim C5. The time-zone converter resolves the integer 5, the decimal 5.0 (coefficient 50,
  exponent -1) and an interval that encodes to five hours to a fixed-offset zone of 18000
  seconds, and the integer -8 to a fixed-offset zone of -28800 seconds; each zone carries the
  text of the value it came from as its label. In general an integer is multiplied by 3600
  (in 64-bit arithmetic), a float is multiplied by 60.0 twice and converted to an integer, a
  decimal that resolves gives exactly 3600 times its value, and the encoded nanoseconds of an
  interval are divided by one second with truncation towards zero.
\<close>

theorem timeZone_fixed_offsets:
  "timeZoneVarLocation e [Datum (DInt 5)]
     = Inr (FixedOffsetZone 18000 (exprString e (Datum (DInt 5))))
   \<and> timeZoneVarLocation e [Datum (DDecimal (Finite False 50 (- 1)))]
     = Inr (FixedOffsetZone 18000 (exprString e (Datum (DDecimal (Finite False 50 (- 1))))))
   \<and> (Encode e iv = Inr (5 * 60 * 60 * time_Second) \<longrightarrow>
        timeZoneVarLocation e [Datum (DInterval iv)]
          = Inr (FixedOffsetZone 18000 (exprString e (Datum (DInterval iv)))))
   \<and> timeZoneVarLocation e [Datum (DInt (- 8))]
     = Inr (FixedOffsetZone (- 28800) (exprString e (Datum (DInt (- 8)))))
   \<and> timeZoneVarLocation e [Datum (DInt v)]
     = Inr (FixedOffsetZone (sint (v * 3600)) (exprString e (Datum (DInt v))))
   \<and> timeZoneVarLocation e [Datum (DFloat f)]
     = Inr (FixedOffsetZone
              (sint (float64_to_int64 e (float64_mul e (float64_mul e f float64_60) float64_60)))
              (exprString e (Datum (DFloat f))))
   \<and> (timeZoneVarLocation e [Datum (DDecimal (Finite neg c ex))] = Inr loc \<longrightarrow>
        (\<exists>offset. loc = FixedOffsetZone offset
                           (exprString e (Datum (DDecimal (Finite neg c ex))))
           \<and> real_of_int offset = 3600 * decimal_value neg c ex))
   \<and> (Encode e iv = Inr ns \<longrightarrow>
        timeZoneVarLocation e [Datum (DInterval iv)]
          = Inr (FixedOffsetZone (sint ns sdiv 1000000000)
                   (exprString e (Datum (DInterval iv)))))"
proof (intro conjI impI)
  show "timeZoneVarLocation e [Datum (DInt 5)]
     = Inr (FixedOffsetZone 18000 (exprString e (Datum (DInt 5))))"
    by (simp add: timeZoneVarLocation_def Eval_def FixedOffsetTimeZoneToLocation_def)
  show "timeZoneVarLocation e [Datum (DDecimal (Finite False 50 (- 1)))]
     = Inr (FixedOffsetZone 18000 (exprString e (Datum (DDecimal (Finite False 50 (- 1))))))"
    by (simp add: timeZone_decimal decimal_Int64_def)
  show "timeZoneVarLocation e [Datum (DInt (- 8))]
     = Inr (FixedOffsetZone (- 28800) (exprString e (Datum (DInt (- 8)))))"
    by (simp add: timeZoneVarLocation_def Eval_def FixedOffsetTimeZoneToLocation_def)
  show "timeZoneVarLocation e [Datum (DInt v)]
     = Inr (FixedOffsetZone (sint (v * 3600)) (exprString e (Datum (DInt v))))"
    by (simp add: timeZoneVarLocation_def Eval_def FixedOffsetTimeZoneToLocation_def
          mult.assoc)
  show "timeZoneVarLocation e [Datum (DFloat f)]
     = Inr (FixedOffsetZone
              (sint (float64_to_int64 e (float64_mul e (float64_mul e f float64_60) float64_60)))
              (exprString e (Datum (DFloat f))))"
    by (simp add: timeZoneVarLocation_def Eval_def FixedOffsetTimeZoneToLocation_def)
next
  assume "Encode e iv = Inr (5 * 60 * 60 * time_Second)"
  then show "timeZoneVarLocation e [Datum (DInterval iv)]
          = Inr (FixedOffsetZone 18000 (exprString e (Datum (DInterval iv))))"
    by (simp add: timeZoneVarLocation_def Eval_def FixedOffsetTimeZoneToLocation_def
          sint_int64_quo) (simp add: time_Second_def signed_divide_int_def)
next
  assume "timeZoneVarLocation e [Datum (DDecimal (Finite neg c ex))] = Inr loc"
  from timeZone_decimal_exact [OF this]
  show "\<exists>offset. loc = FixedOffsetZone offset
                           (exprString e (Datum (DDecimal (Finite neg c ex))))
           \<and> real_of_int offset = 3600 * decimal_value neg c ex"
    by blast
next
  assume "Encode e iv = Inr ns"
  then show "timeZoneVarLocation e [Datum (DInterval iv)]
          = Inr (FixedOffsetZone (sint ns sdiv 1000000000)
                   (exprString e (Datum (DInterval iv))))"
    by (simp add: timeZoneVarLocation_def Eval_def FixedOffsetTimeZoneToLocation_def
          sint_int64_quo)
qed

theorem timeZone_fixed_offsets_witness:
  "timeZoneVarLocation example_env
     [Datum (DInterval \<lparr>Months = 0, Days = 0, nanos = 18000000000000\<rparr>)]
     = Inr (FixedOffsetZone 18000 ''datum'')
   \<and> timeZoneVarLocation example_env [Datum (DInt 5)] = Inr (FixedOffsetZone 18000 ''datum'')
   \<and> timeZoneVarLocation example_env [Datum (DDecimal (Finite False 50 (- 1)))]
     = Inr (FixedOffsetZone 18000 ''datum'')
   \<and> timeZoneVarLocation example_env
     [Datum (DInterval \<lparr>Months = 0, Days = 0, nanos = - 1500000000\<rparr>)]
     = Inr (FixedOffsetZone (- 1) ''datum'')
   \<and> timeZoneVarLocation example_env [Datum (DDecimal (Finite False 55 (- 1)))]
     = Inr (FixedOffsetZone 19800 ''datum'')"
proof -
  let ?five = "\<lparr>Months = 0, Days = 0, nanos = 18000000000000\<rparr>"
  let ?neg = "\<lparr>Months = 0, Days = 0, nanos = - 1500000000\<rparr>"
  have str: "exprString example_env (Datum (DInterval iv)) = ''datum''"
    "exprString example_env (Datum (DInt i)) = ''datum''"
    "exprString example_env (Datum (DDecimal d)) = ''datum''" for iv i d
    by (simp_all add: example_env_def)
  have enc5: "Encode example_env ?five = Inr (5 * 60 * 60 * time_Second)"
    by (simp add: example_env_def time_Second_def)
  have encn: "Encode example_env ?neg = Inr (- 1500000000)"
    by (simp add: example_env_def)
  have dec: "timeZoneVarLocation example_env [Datum (DDecimal (Finite False 55 (- 1)))]
               = Inr (FixedOffsetZone 19800 ''datum'')"
    by (simp add: timeZone_decimal decimal_Int64_def str)
  have q: "sint (- 1500000000 :: 64 word) sdiv 1000000000 = - 1"
    by (simp add: signed_divide_int_def)
  from timeZone_fixed_offsets [of example_env ?five "- 8" 0 False 55 "- 1"
         "FixedOffsetZone 19800 ''datum''" "5 * 60 * 60 * time_Second"]
       timeZone_fixed_offsets [of example_env ?neg "- 8" 0 False 55 "- 1"
         "FixedOffsetZone 19800 ''datum''" "- 1500000000"]
  show ?thesis
    using enc5 encn dec q by (simp only: str)
qed

text \<open>
  Claim C6. A finite decimal whose value times 3600 lies outside the range of a signed 64-bit
  integer is rejected by the time-zone converter: the result is the value error for the
  parameter \<^verbatim>\<open>timezone\<close> whose detail has the word "overflow" and, as its argument, the text of
  the product that does not fit. No offset is produced, wrapped or truncated.
\<close>

theorem timeZone_decimal_overflow:
  assumes "3600 * decimal_value neg c ex > 2 ^ 63 - 1 \<or> 3600 * decimal_value neg c ex < - (2 ^ 63)"
  shows "\<exists>err. timeZoneVarGetStringVal e [Datum (DDecimal (Finite neg c ex))] = Inl err
           \<and> code err = InvalidParameterValue
           \<and> ArgS ''timezone'' \<in> set (msg_args err)
           \<and> (\<exists>fmt. sublist ''overflow'' fmt
                 \<and> detail err = Some (fmt, [ArgS (decimalString e (Finite neg (3600 * c) ex))]))
           \<and> err = wrapSetVarError ''timezone''
                     (exprString e (Datum (DDecimal (Finite neg c ex))))
                     ''time zone value %s would overflow an int64''
                     [ArgS (decimalString e (Finite neg (3600 * c) ex))]"
proof -
  have "timeZoneVarLocation e [Datum (DDecimal (Finite neg c ex))] \<noteq> Inr loc" for loc
  proof
    assume "timeZoneVarLocation e [Datum (DDecimal (Finite neg c ex))] = Inr loc"
    from timeZone_decimal_exact [OF this] obtain offset :: int
      where v: "real_of_int offset = 3600 * decimal_value neg c ex"
        and r: "- (2 ^ 63) \<le> offset" "offset < 2 ^ 63"
      by blast
    from r have "real_of_int offset \<le> 2 ^ 63 - 1" "- (2 ^ 63) \<le> real_of_int offset"
      by simp_all
    with v assms show False by linarith
  qed
  then obtain err where
    "decimal_Int64 (Finite (False \<noteq> neg) (60 * 60 * c) (0 + ex)) = Inl err"
    by (cases "decimal_Int64 (Finite (False \<noteq> neg) (60 * 60 * c) (0 + ex))")
       (simp_all only: timeZone_decimal sum.case, blast)
  then have "timeZoneVarLocation e [Datum (DDecimal (Finite neg c ex))]
       = Inl (wrapSetVarError ''timezone'' (exprString e (Datum (DDecimal (Finite neg c ex))))
                ''time zone value %s would overflow an int64''
                [ArgS (decimalString e (Finite neg (3600 * c) ex))])"
    by (simp only: timeZone_decimal sum.case) simp
  then show ?thesis
    by (simp add: timeZoneVarGetStringVal_def overflow_in_detail wrapSetVarError_def)
qed

theorem timeZone_decimal_overflow_witness:
  "3600 * decimal_value False 1 19 > 2 ^ 63 - 1
   \<and> timeZoneVarGetStringVal example_env [Datum (DDecimal (Finite False 1 19))]
     = Inl (wrapSetVarError ''timezone'' ''datum''
              ''time zone value %s would overflow an int64'' [ArgS ''decimal''])
   \<and> 3600 * decimal_value True 2562047788015216 0 < - (2 ^ 63)
   \<and> timeZoneVarGetStringVal example_env [Datum (DDecimal (Finite True 2562047788015216 0))]
     = Inl (wrapSetVarError ''timezone'' ''datum''
              ''time zone value %s would overflow an int64'' [ArgS ''decimal''])"
proof -
  have h1: "3600 * decimal_value False 1 19 > 2 ^ 63 - 1"
    by (simp add: decimal_value_def)
  have h2: "3600 * decimal_value True 2562047788015216 0 < - (2 ^ 63)"
    by (simp add: decimal_value_def)
  have str: "exprString example_env (Datum (DDecimal d)) = ''datum''"
    "decimalString example_env d = ''decimal''" for d
    by (simp_all add: example_env_def)
  from timeZone_decimal_overflow [of False 1 19 example_env]
       timeZone_decimal_overflow [of True 2562047788015216 0 example_env] h1 h2
  show ?thesis
    by (auto simp only: str)
qed

subsection \<open>Timeouts\<close>

lemma validateTimeoutVar_negative:
  assumes "ParseDIntervalWithTypeMetadata e style s = Inr iv" and "Encode e iv = Inr t"
    and "t <s 0"
  shows "validateTimeoutVar e style s varName
           = Inl (wrapSetVarError varName s ''%v cannot have a negative duration'' [ArgS varName])"
  using assms by (simp add: validateTimeoutVar_def intervalToDuration_def)


text \<open>
  Claim C7. When the input string parses to an interval whose duration is negative, each of
  the four timeout setters returns the value error that names its parameter and the input,
  and returns the mutator as it was: the stored timeouts are unchanged.
\<close>

theorem timeout_setters_reject_negative:
  assumes "ParseDIntervalWithTypeMetadata e (IntervalStyleField m) s = Inr iv"
    and "Encode e iv = Inr t" and "t <s 0"
  shows "stmtTimeoutVarSet e s m
           = (Some (wrapSetVarError ''statement_timeout'' s
                      ''%v cannot have a negative duration'' [ArgS ''statement_timeout'']), m)
       \<and> lockTimeoutVarSet e s m
           = (Some (wrapSetVarError ''lock_timeout'' s
                      ''%v cannot have a negative duration'' [ArgS ''lock_timeout'']), m)
       \<and> idleInSessionTimeoutVarSet e s m
           = (Some (wrapSetVarError ''idle_in_session_timeout'' s
                      ''%v cannot have a negative duration'' [ArgS ''idle_in_session_timeout'']), m)
       \<and> idleInTransactionSessionTimeoutVarSet e s m
           = (Some (wrapSetVarError ''idle_in_transaction_session_timeout'' s
                      ''%v cannot have a negative duration''
                      [ArgS ''idle_in_transaction_session_timeout'']), m)
       \<and> code (wrapSetVarError varName s ''%v cannot have a negative duration'' [ArgS varName])
           = InvalidParameterValue
       \<and> ArgS varName \<in> set (msg_args (wrapSetVarError varName s
                                ''%v cannot have a negative duration'' [ArgS varName]))"
  by (simp add: stmtTimeoutVarSet_def lockTimeoutVarSet_def idleInSessionTimeoutVarSet_def
        idleInTransactionSessionTimeoutVarSet_def validateTimeoutVar_negative [OF assms]
        wrapSetVarError_def)

theorem timeout_setters_reject_negative_witness:
  "lockTimeoutVarSet example_env ''-1'' example_data
     = (Some (wrapSetVarError ''lock_timeout'' ''-1''
                ''%v cannot have a negative duration'' [ArgS ''lock_timeout'']), example_data)
   \<and> stmtTimeoutVarSet example_env ''-1'' example_data
     = (Some (wrapSetVarError ''statement_timeout'' ''-1''
                ''%v cannot have a negative duration'' [ArgS ''statement_timeout'']), example_data)
   \<and> LockTimeout (snd (lockTimeoutVarSet example_env ''-1'' example_data)) = 0"
proof -
  have p: "ParseDIntervalWithTypeMetadata example_env (IntervalStyleField example_data) ''-1''
             = Inr \<lparr>Months = 0, Days = 0, nanos = - 1000000\<rparr>"
    by (simp add: example_env_def example_parse_def example_data_def)
  have en: "Encode example_env \<lparr>Months = 0, Days = 0, nanos = - 1000000\<rparr> = Inr (- 1000000)"
    by (simp add: example_env_def)
  have n: "(- 1000000 :: 64 word) <s 0"
    by (simp add: word_sless_alt)
  from timeout_setters_reject_negative [OF p en n, of "''lock_timeout''"]
  show ?thesis
    by (simp add: example_data_def)
qed




lemma Duration_String_0: "Duration_String 0 = ''0s''"
  by (simp add: Duration_String_def)



text \<open>
  Claim C9. For an evaluated value that is not a text, an interval or an integer (a float, a
  decimal, a boolean, ...) the timeout converter returns no error: the type switch matches
  nothing, the timeout keeps its zero value and the result is its rendering, \<^verbatim>\<open>0s\<close>.
\<close>

theorem timeout_converter_unsupported_type:
  assumes "Eval e x = Inr d"
    and "\<forall>v. d \<noteq> DString v" and "\<forall>v. d \<noteq> DInterval v" and "\<forall>v. d \<noteq> DInt v"
  shows "makeTimeoutVarGetter varName e [x] = Inr (Duration_String 0)
       \<and> Duration_String 0 = ''0s''"
  using assms
  by (cases d) (simp_all add: makeTimeoutVarGetter_def Duration_String_0)

theorem timeout_converter_unsupported_type_witness:
  "makeTimeoutVarGetter ''statement_timeout'' example_env [Datum (DFloat 0x4014000000000000)]
     = Inr ''0s''
   \<and> makeTimeoutVarGetter ''lock_timeout'' example_env [Datum (DBool True)] = Inr ''0s''"
proof -
  have ev: "Eval example_env (Datum d) = Inr d" for d
    by (simp add: Eval_def)
  from timeout_converter_unsupported_type [OF ev, of "DFloat 0x4014000000000000" "''statement_timeout''"]
       timeout_converter_unsupported_type [OF ev, of "DBool True" "''lock_timeout''"]
  show ?thesis by simp
qed

end
